theory Spec2Isabelle
  imports Main "HOL-Library.Word" "HOL-Library.Char_ord" "HOL-Library.List_Lexorder"
begin

section \<open>Library boundary: exceptions, characters, numbers\<close>

text \<open>
  The Starbeam agent is C++ on top of Boost (Asio, Beast, PropertyTree) and the standard
  library. Every exception the modelled code can meet derives from \<open>std::exception\<close>;
  the model keeps the class that was thrown as a value and every throwing call returns a
  sum, \<open>Inl\<close> being the exception.
\<close>

datatype exn =
    json_parser_error   \<comment> \<open>\<open>read_json\<close> on text that is not JSON\<close>
  | ptree_bad_path      \<comment> \<open>\<open>ptree::get\<close> / \<open>get_child\<close> on a missing key\<close>
  | ptree_bad_data      \<comment> \<open>\<open>ptree::get<T>\<close> when the translator rejects the data\<close>
  | system_error        \<comment> \<open>Boost.Asio / Beast transport failure\<close>
  | invalid_argument    \<comment> \<open>\<open>std::stoul\<close> without digits\<close>
  | out_of_range        \<comment> \<open>\<open>std::stoul\<close> overflow\<close>
  | bad_alloc           \<comment> \<open>\<open>std::bad_alloc\<close> or \<open>std::length_error\<close> of a container\<close>
  | callback_error      \<comment> \<open>any \<open>std::exception\<close> thrown by a registered callback\<close>

definition bind_exn :: "exn + 'a \<Rightarrow> ('a \<Rightarrow> exn + 'b) \<Rightarrow> exn + 'b" where
  "bind_exn m f = (case m of Inl e \<Rightarrow> Inl e | Inr x \<Rightarrow> f x)"

text \<open>Character classes of the "C" locale, as \<open>std::isspace\<close>, \<open>isdigit\<close>, \<open>::tolower\<close> read them.\<close>

definition isspace :: "char \<Rightarrow> bool" where
  "isspace c = (c = CHR '' '' \<or> (9 \<le> (of_char c :: nat) \<and> (of_char c :: nat) \<le> 13))"

definition isdigit :: "char \<Rightarrow> bool" where
  "isdigit c = (48 \<le> (of_char c :: nat) \<and> (of_char c :: nat) \<le> 57)"

definition tolower :: "char \<Rightarrow> char" where
  "tolower c = (if 65 \<le> (of_char c :: nat) \<and> (of_char c :: nat) \<le> 90
                then char_of ((of_char c :: nat) + 32) else c)"

definition dec_value :: "string \<Rightarrow> nat" where
  "dec_value ds = foldl (\<lambda>a c. 10 * a + ((of_char c :: nat) - 48)) 0 ds"

text \<open>\<open>operator<<\<close> on an unsigned integer and \<open>std::to_string\<close>: the decimal digits.\<close>

fun decimal :: "nat \<Rightarrow> string" where
  "decimal n = (if n < 10 then [char_of (48 + n)]
                else decimal (n div 10) @ [char_of (48 + n mod 10)])"

declare decimal.simps [simp del]

section \<open>Boost.PropertyTree as the codec uses it\<close>

text \<open>
  \<open>pt::read_json\<close> is outside the repository. A received frame is represented by what
  \<open>read_json\<close> makes of it: \<open>None\<close> when it throws \<open>json_parser_error\<close>, otherwise the
  property tree. A node holds a data string (the text of a JSON string, number or literal;
  empty for an object) and its children in document order. Every path the codec asks for is
  a single key without a dot; of several children with one key the first is taken.
\<close>

datatype ptree = Ptree (m_data: string) (m_children: "(string \<times> ptree) list")

type_synonym frame = "ptree option"

definition get_child_optional :: "string \<Rightarrow> ptree \<Rightarrow> ptree option" where
  "get_child_optional key t = map_of (m_children t) key"

definition get_child :: "string \<Rightarrow> ptree \<Rightarrow> exn + ptree" where
  "get_child key t =
     (case get_child_optional key t of None \<Rightarrow> Inl ptree_bad_path | Some c \<Rightarrow> Inr c)"

text \<open>\<open>get<std::string>\<close>: the identity translator never fails.\<close>

definition get_string :: "string \<Rightarrow> ptree \<Rightarrow> exn + string" where
  "get_string key t = bind_exn (get_child key t) (\<lambda>c. Inr (m_data c))"

definition get_optional_string :: "string \<Rightarrow> ptree \<Rightarrow> string option" where
  "get_optional_string key t = map_option m_data (get_child_optional key t)"

text \<open>
  \<open>get<uint16_t>\<close> and \<open>get<uint64_t>\<close> go through the stream translator:
  \<open>iss >> e\<close>, then \<open>iss >> std::ws\<close>, and the stream must be at its end. The extraction
  skips leading white space, takes an optional sign and decimal digits, fails without a
  digit or when the digits exceed the type, and negates modulo the width after a minus.
\<close>

definition extract_unsigned :: "string \<Rightarrow> 'a::len word option" where
  "extract_unsigned s =
     (let s1 = dropWhile isspace s;
          signed = (case s1 of [] \<Rightarrow> False | c # cs \<Rightarrow> c = CHR ''-'' \<or> c = CHR ''+'');
          negative = (case s1 of [] \<Rightarrow> False | c # cs \<Rightarrow> c = CHR ''-'');
          s2 = (if signed then tl s1 else s1);
          ds = takeWhile isdigit s2;
          v = dec_value ds
      in if ds = [] \<or> 2 ^ LENGTH('a) \<le> v \<or> dropWhile isspace (dropWhile isdigit s2) \<noteq> []
         then None
         else Some (if negative then - word_of_nat v else word_of_nat v))"

definition get_unsigned :: "string \<Rightarrow> ptree \<Rightarrow> exn + 'a::len word" where
  "get_unsigned key t =
     bind_exn (get_child key t) (\<lambda>c.
       case extract_unsigned (m_data c) of None \<Rightarrow> Inl ptree_bad_data | Some v \<Rightarrow> Inr v)"

definition get_optional_unsigned :: "string \<Rightarrow> ptree \<Rightarrow> ('a::len word) option" where
  "get_optional_unsigned key t =
     (case get_child_optional key t of None \<Rightarrow> None | Some c \<Rightarrow> extract_unsigned (m_data c))"

text \<open>
  \<open>get<bool>(key, default)\<close>: the translator first reads a number (0 or 1), and when that
  fails clears the stream and reads \<open>true\<close> or \<open>false\<close> from where the first attempt
  stopped; only white space may follow.
\<close>

definition at_end :: "string \<Rightarrow> bool \<Rightarrow> bool option" where
  "at_end r b = (if dropWhile isspace r = [] then Some b else None)"

definition extract_bool :: "string \<Rightarrow> bool option" where
  "extract_bool s =
     (let s1 = dropWhile isspace s;
          signed = (case s1 of [] \<Rightarrow> False | c # cs \<Rightarrow> c = CHR ''-'' \<or> c = CHR ''+'');
          negative = (case s1 of [] \<Rightarrow> False | c # cs \<Rightarrow> c = CHR ''-'');
          s2 = (if signed then tl s1 else s1);
          ds = takeWhile isdigit s2;
          r = dropWhile isdigit s2
      in if ds \<noteq> [] \<and> dec_value ds = 0 then at_end r False
         else if ds \<noteq> [] \<and> dec_value ds = 1 \<and> \<not> negative then at_end r True
         else (let r' = dropWhile isspace r
               in if take 4 r' = ''true'' then at_end (drop 4 r') True
                  else if take 5 r' = ''false'' then at_end (drop 5 r') False
                  else None))"

definition get_bool_default :: "string \<Rightarrow> bool \<Rightarrow> ptree \<Rightarrow> bool" where
  "get_bool_default key d t =
     (case get_child_optional key t of
        None \<Rightarrow> d
      | Some c \<Rightarrow> (case extract_bool (m_data c) of None \<Rightarrow> d | Some b \<Rightarrow> b))"

text \<open>
  \<open>std::map<std::string, std::string>\<close>: its entries in iteration order, which is
  ascending key order; \<open>smap_set\<close> is \<open>m[key] = value\<close>.
\<close>

type_synonym smap = "(string \<times> string) list"

fun smap_set :: "string \<Rightarrow> string \<Rightarrow> smap \<Rightarrow> smap" where
  "smap_set k v [] = [(k, v)]"
| "smap_set k v ((k', v') # m) =
     (if k < k' then (k, v) # (k', v') # m
      else if k = k' then (k, v) # m
      else (k', v') # smap_set k v m)"

section \<open>protocol.h, protocol.cpp: the messages and their codec\<close>

text \<open>
  Field names carry a prefix naming their struct, since several structs share a field name.
\<close>

datatype MessageType =
    Register | RegisterAck | RegisterError | HttpRequest | HttpResponse
  | RtspRequest | RtspResponse | UdpChannelSetup | UdpChannelAck | UdpChannelClose
  | SessionStart | SessionEnd | Ping | Pong | ErrorMsg | Unknown

record PortAssignment =
  http :: "16 word"
  https :: "16 word"
  rtsp :: "16 word"
  video :: "16 word"
  audio :: "16 word"
  control :: "16 word"

record HostCapabilities =
  max_width :: "32 word option"
  max_height :: "32 word option"
  max_fps :: "32 word option"
  video_codecs :: "string list"
  audio_codecs :: "string list"

record RegisterMessage =
  reg_hostname :: string
  reg_unique_id :: string
  reg_host_id :: "string option"
  reg_auth_key :: string
  reg_capabilities :: HostCapabilities

record RegisterAckMessage =
  regack_host_id :: string
  regack_ports :: PortAssignment
  regack_external_address :: "string option"

record HttpRequestMessage =
  hreq_id :: "64 word"
  hreq_method :: string
  hreq_path :: string
  hreq_query :: "string option"
  hreq_headers :: smap
  hreq_body :: "string option"
  hreq_is_https :: bool
  hreq_client_addr :: string

record HttpResponseMessage =
  hresp_id :: "64 word"
  hresp_status :: "16 word"
  hresp_headers :: smap
  hresp_body :: "string option"

record RtspRequestMessage =
  rreq_id :: "64 word"
  rreq_method :: string
  rreq_uri :: string
  rreq_headers :: smap
  rreq_body :: "string option"
  rreq_client_addr :: string

record RtspResponseMessage =
  rresp_id :: "64 word"
  rresp_status :: "16 word"
  rresp_reason :: string
  rresp_headers :: smap
  rresp_body :: "string option"

datatype UdpChannelType = Video | Audio | Control

record UdpChannelSetupMessage =
  setup_session_id :: "64 word"
  setup_channel :: UdpChannelType
  setup_client_addr :: string

record UdpChannelAckMessage =
  ack_session_id :: "64 word"
  ack_channel :: UdpChannelType
  ack_relay_port :: "16 word"
  ack_local_port :: "16 word"

record SessionStartMessage =
  ss_session_id :: "64 word"
  ss_client_id :: string
  ss_client_addr :: string

record SessionEndMessage =
  se_session_id :: "64 word"
  se_reason :: "string option"

record PingMessage =
  ping_ts :: "64 word"

record PongMessage =
  pong_ts :: "64 word"

record ErrorMessage =
  err_code :: string
  err_message :: string
  err_request_id :: "64 word option"

subsection \<open>Channel type names\<close>

fun channel_type_string :: "UdpChannelType \<Rightarrow> string" where
  "channel_type_string Video = ''video''"
| "channel_type_string Audio = ''audio''"
| "channel_type_string Control = ''control''"

definition channel_type_from_string :: "string \<Rightarrow> UdpChannelType" where
  "channel_type_from_string str =
     (if str = ''video'' then Video
      else if str = ''audio'' then Audio
      else if str = ''control'' then Control
      else Video)"

subsection \<open>Serialisation\<close>

definition hex_digit :: "nat \<Rightarrow> char" where
  "hex_digit n = (if n < 10 then char_of (48 + n) else char_of (87 + n))"

definition escape_char :: "char \<Rightarrow> string" where
  "escape_char c =
     (if c = CHR 0x22 then [CHR 0x5C, CHR 0x22]
      else if c = CHR 0x5C then [CHR 0x5C, CHR 0x5C]
      else if c = CHR 0x08 then [CHR 0x5C, CHR ''b'']
      else if c = CHR 0x0C then [CHR 0x5C, CHR ''f'']
      else if c = CHR 0x0A then [CHR 0x5C, CHR ''n'']
      else if c = CHR 0x0D then [CHR 0x5C, CHR ''r'']
      else if c = CHR 0x09 then [CHR 0x5C, CHR ''t'']
      else if (of_char c :: nat) \<le> 31
        then [CHR 0x5C, CHR ''u'', CHR ''0'', CHR ''0'',
              hex_digit ((of_char c :: nat) div 16), hex_digit ((of_char c :: nat) mod 16)]
      else [c])"

definition escape_json :: "string \<Rightarrow> string" where
  "escape_json s = concat (map escape_char s)"

definition quoted :: "string \<Rightarrow> string" where
  "quoted s = [CHR 0x22] @ escape_json s @ [CHR 0x22]"

text \<open>The loops that write a JSON array of strings and a JSON object of strings.\<close>

fun codecs_json :: "bool \<Rightarrow> string list \<Rightarrow> string" where
  "codecs_json first [] = []"
| "codecs_json first (x # xs) =
     (if first then [] else '','') @ quoted x @ codecs_json False xs"

fun headers_json :: "bool \<Rightarrow> smap \<Rightarrow> string" where
  "headers_json first [] = []"
| "headers_json first ((k, v) # m) =
     (if first then [] else '','') @ quoted k @ '':'' @ quoted v @ headers_json False m"

definition RegisterMessage_to_json :: "RegisterMessage \<Rightarrow> string" where
  \<open>RegisterMessage_to_json r =
     ''{"type":"register"''
     @ '',"hostname":'' @ quoted (reg_hostname r)
     @ '',"unique_id":'' @ quoted (reg_unique_id r)
     @ '',"auth_key":'' @ quoted (reg_auth_key r)
     @ (case reg_host_id r of None \<Rightarrow> [] | Some h \<Rightarrow> '',"host_id":'' @ quoted h)
     @ '',"capabilities":{''
     @ (case max_width (reg_capabilities r) of None \<Rightarrow> []
        | Some w \<Rightarrow> ''"max_width":'' @ decimal (unat w) @ '','')
     @ (case max_height (reg_capabilities r) of None \<Rightarrow> []
        | Some h \<Rightarrow> ''"max_height":'' @ decimal (unat h) @ '','')
     @ (case max_fps (reg_capabilities r) of None \<Rightarrow> []
        | Some f \<Rightarrow> ''"max_fps":'' @ decimal (unat f) @ '','')
     @ ''"video_codecs":['' @ codecs_json True (video_codecs (reg_capabilities r))
     @ ''],"audio_codecs":['' @ codecs_json True (audio_codecs (reg_capabilities r))
     @ '']}}''\<close>

definition HttpResponseMessage_to_json :: "HttpResponseMessage \<Rightarrow> string" where
  \<open>HttpResponseMessage_to_json r =
     ''{"type":"http_response"''
     @ '',"id":'' @ decimal (unat (hresp_id r))
     @ '',"status":'' @ decimal (unat (hresp_status r))
     @ '',"headers":{'' @ headers_json True (hresp_headers r) @ ''}''
     @ (case hresp_body r of None \<Rightarrow> [] | Some b \<Rightarrow> '',"body":'' @ quoted b)
     @ ''}''\<close>

definition RtspResponseMessage_to_json :: "RtspResponseMessage \<Rightarrow> string" where
  \<open>RtspResponseMessage_to_json r =
     ''{"type":"rtsp_response"''
     @ '',"id":'' @ decimal (unat (rresp_id r))
     @ '',"status":'' @ decimal (unat (rresp_status r))
     @ '',"reason":'' @ quoted (rresp_reason r)
     @ '',"headers":{'' @ headers_json True (rresp_headers r) @ ''}''
     @ (case rresp_body r of None \<Rightarrow> [] | Some b \<Rightarrow> '',"body":'' @ quoted b)
     @ ''}''\<close>

definition UdpChannelAckMessage_to_json :: "UdpChannelAckMessage \<Rightarrow> string" where
  \<open>UdpChannelAckMessage_to_json a =
     ''{"type":"udp_channel_ack"''
     @ '',"session_id":'' @ decimal (unat (ack_session_id a))
     @ '',"channel":"'' @ channel_type_string (ack_channel a) @ ''"''
     @ '',"relay_port":'' @ decimal (unat (ack_relay_port a))
     @ '',"local_port":'' @ decimal (unat (ack_local_port a))
     @ ''}''\<close>

definition SessionEndMessage_to_json :: "SessionEndMessage \<Rightarrow> string" where
  \<open>SessionEndMessage_to_json m =
     ''{"type":"session_end"''
     @ '',"session_id":'' @ decimal (unat (se_session_id m))
     @ (case se_reason m of None \<Rightarrow> [] | Some r \<Rightarrow> '',"reason":'' @ quoted r)
     @ ''}''\<close>

definition PongMessage_to_json :: "PongMessage \<Rightarrow> string" where
  \<open>PongMessage_to_json p = ''{"type":"pong","ts":'' @ decimal (unat (pong_ts p)) @ ''}''\<close>

subsection \<open>Parsing\<close>

definition with_tree :: "frame \<Rightarrow> (ptree \<Rightarrow> exn + 'a) \<Rightarrow> exn + 'a" where
  "with_tree f k = (case f of None \<Rightarrow> Inl json_parser_error | Some t \<Rightarrow> k t)"

definition RegisterAckMessage_from_json :: "frame \<Rightarrow> exn + RegisterAckMessage" where
  "RegisterAckMessage_from_json f =
     with_tree f (\<lambda>tree.
       bind_exn (get_string ''host_id'' tree) (\<lambda>hid.
       bind_exn (get_child ''ports'' tree) (\<lambda>ports_tree.
       bind_exn (get_unsigned ''http'' ports_tree) (\<lambda>p_http.
       bind_exn (get_unsigned ''https'' ports_tree) (\<lambda>p_https.
       bind_exn (get_unsigned ''rtsp'' ports_tree) (\<lambda>p_rtsp.
       bind_exn (get_unsigned ''video'' ports_tree) (\<lambda>p_video.
       bind_exn (get_unsigned ''audio'' ports_tree) (\<lambda>p_audio.
       bind_exn (get_unsigned ''control'' ports_tree) (\<lambda>p_control.
         Inr \<lparr>regack_host_id = hid,
              regack_ports = \<lparr>http = p_http, https = p_https, rtsp = p_rtsp,
                              video = p_video, audio = p_audio, control = p_control\<rparr>,
              regack_external_address = get_optional_string ''external_address'' tree\<rparr>)))))))))"

definition headers_from_tree :: "ptree \<Rightarrow> smap" where
  "headers_from_tree tree =
     (case get_child_optional ''headers'' tree of
        None \<Rightarrow> []
      | Some h \<Rightarrow> foldl (\<lambda>m kc. smap_set (fst kc) (m_data (snd kc)) m) [] (m_children h))"

definition HttpRequestMessage_from_json :: "frame \<Rightarrow> exn + HttpRequestMessage" where
  "HttpRequestMessage_from_json f =
     with_tree f (\<lambda>tree.
       bind_exn (get_unsigned ''id'' tree) (\<lambda>i.
       bind_exn (get_string ''method'' tree) (\<lambda>m.
       bind_exn (get_string ''path'' tree) (\<lambda>p.
       bind_exn (get_string ''client_addr'' tree) (\<lambda>a.
         Inr \<lparr>hreq_id = i, hreq_method = m, hreq_path = p,
              hreq_query = get_optional_string ''query'' tree,
              hreq_headers = headers_from_tree tree,
              hreq_body = get_optional_string ''body'' tree,
              hreq_is_https = get_bool_default ''is_https'' False tree,
              hreq_client_addr = a\<rparr>)))))"

definition RtspRequestMessage_from_json :: "frame \<Rightarrow> exn + RtspRequestMessage" where
  "RtspRequestMessage_from_json f =
     with_tree f (\<lambda>tree.
       bind_exn (get_unsigned ''id'' tree) (\<lambda>i.
       bind_exn (get_string ''method'' tree) (\<lambda>m.
       bind_exn (get_string ''uri'' tree) (\<lambda>u.
       bind_exn (get_string ''client_addr'' tree) (\<lambda>a.
         Inr \<lparr>rreq_id = i, rreq_method = m, rreq_uri = u,
              rreq_headers = headers_from_tree tree,
              rreq_body = get_optional_string ''body'' tree,
              rreq_client_addr = a\<rparr>)))))"

definition UdpChannelSetupMessage_from_json :: "frame \<Rightarrow> exn + UdpChannelSetupMessage" where
  "UdpChannelSetupMessage_from_json f =
     with_tree f (\<lambda>tree.
       bind_exn (get_unsigned ''session_id'' tree) (\<lambda>sid.
       bind_exn (get_string ''channel'' tree) (\<lambda>ch.
       bind_exn (get_string ''client_addr'' tree) (\<lambda>a.
         Inr \<lparr>setup_session_id = sid,
              setup_channel = channel_type_from_string ch,
              setup_client_addr = a\<rparr>))))"

definition SessionStartMessage_from_json :: "frame \<Rightarrow> exn + SessionStartMessage" where
  "SessionStartMessage_from_json f =
     with_tree f (\<lambda>tree.
       bind_exn (get_unsigned ''session_id'' tree) (\<lambda>sid.
       bind_exn (get_string ''client_id'' tree) (\<lambda>cid.
       bind_exn (get_string ''client_addr'' tree) (\<lambda>a.
         Inr \<lparr>ss_session_id = sid, ss_client_id = cid, ss_client_addr = a\<rparr>))))"

definition PingMessage_from_json :: "frame \<Rightarrow> exn + PingMessage" where
  "PingMessage_from_json f =
     with_tree f (\<lambda>tree.
       bind_exn (get_unsigned ''ts'' tree) (\<lambda>t. Inr \<lparr>ping_ts = t\<rparr>))"

definition ErrorMessage_from_json :: "frame \<Rightarrow> exn + ErrorMessage" where
  "ErrorMessage_from_json f =
     with_tree f (\<lambda>tree.
       bind_exn (get_string ''code'' tree) (\<lambda>c.
       bind_exn (get_string ''message'' tree) (\<lambda>m.
         Inr \<lparr>err_code = c, err_message = m,
              err_request_id = get_optional_unsigned ''request_id'' tree\<rparr>)))"

definition message_type_of_string :: "string \<Rightarrow> MessageType" where
  "message_type_of_string type_str =
     (if type_str = ''register'' then Register
      else if type_str = ''register_ack'' then RegisterAck
      else if type_str = ''register_error'' then RegisterError
      else if type_str = ''http_request'' then HttpRequest
      else if type_str = ''http_response'' then HttpResponse
      else if type_str = ''rtsp_request'' then RtspRequest
      else if type_str = ''rtsp_response'' then RtspResponse
      else if type_str = ''udp_channel_setup'' then UdpChannelSetup
      else if type_str = ''udp_channel_ack'' then UdpChannelAck
      else if type_str = ''udp_channel_close'' then UdpChannelClose
      else if type_str = ''session_start'' then SessionStart
      else if type_str = ''session_end'' then SessionEnd
      else if type_str = ''ping'' then Ping
      else if type_str = ''pong'' then Pong
      else if type_str = ''error'' then ErrorMsg
      else Unknown)"

definition parse_message_type :: "frame \<Rightarrow> MessageType" where
  "parse_message_type f =
     (case with_tree f (get_string ''type'') of
        Inl e \<Rightarrow> Unknown
      | Inr type_str \<Rightarrow> message_type_of_string type_str)"

section \<open>udp.h, udp.cpp: the UDP channel manager\<close>

text \<open>
  Declarations of the host program that the agent reads but that are not part of the
  agent: \<open>config::sunshine.port\<close>, \<open>net::map_port\<close> and the port offsets of
  \<open>nvhttp\<close> and \<open>rtsp_stream\<close>. They are parameters of the model.
\<close>

record sunshine_cfg =
  cfg_port :: int
  cfg_map_port :: "int \<Rightarrow> 16 word"
  cfg_PORT_HTTP :: int
  cfg_PORT_HTTPS :: int
  cfg_RTSP_SETUP_PORT :: int

text \<open>
  What the operating system answers while a channel is created: the port the new socket
  was bound to (or the exception of the socket constructor), the address the relay host
  resolved to, and whether the relay thread could be started.
\<close>

record udp_os =
  os_bind :: "exn + 16 word"
  os_resolve :: "exn + string"
  os_thread :: "exn option"

type_synonym endpoint = "string \<times> 16 word"

record Channel =
  ch_relay_endpoint :: endpoint
  ch_local_endpoint :: endpoint
  ch_local_port :: "16 word"
  ch_running :: bool

record ChannelManager =
  cm_io_context :: bool
  cm_channels :: "UdpChannelType \<rightharpoonup> Channel"
  cm_running :: bool
  cm_relay_host :: string
  cm_relay_video_port :: "16 word"
  cm_relay_audio_port :: "16 word"
  cm_relay_control_port :: "16 word"

definition ChannelManager_new :: ChannelManager where
  "ChannelManager_new =
     \<lparr>cm_io_context = False, cm_channels = Map.empty, cm_running = False,
      cm_relay_host = [], cm_relay_video_port = 0, cm_relay_audio_port = 0,
      cm_relay_control_port = 0\<rparr>"

definition initialize :: "string \<Rightarrow> 16 word \<Rightarrow> 16 word \<Rightarrow> 16 word \<Rightarrow> ChannelManager \<Rightarrow> ChannelManager" where
  "initialize relay_host relay_video_port relay_audio_port relay_control_port m =
     (if cm_running m then m
      else m\<lparr>cm_relay_host := relay_host,
             cm_relay_video_port := relay_video_port,
             cm_relay_audio_port := relay_audio_port,
             cm_relay_control_port := relay_control_port,
             cm_io_context := True,
             cm_running := True\<rparr>)"

definition shutdown :: "ChannelManager \<Rightarrow> ChannelManager" where
  "shutdown m = m\<lparr>cm_running := False, cm_channels := Map.empty, cm_io_context := False\<rparr>"

text \<open>
  \<open>get_sunshine_port\<close> returns \<open>uint16_t\<close>: the \<open>int\<close> sum is cut to 16 bits. Its
  \<open>default: return 0\<close> has no value of the enumeration left to apply to.
\<close>

fun get_sunshine_port :: "sunshine_cfg \<Rightarrow> UdpChannelType \<Rightarrow> 16 word" where
  "get_sunshine_port cfg Video = word_of_int (cfg_port cfg + 9)"
| "get_sunshine_port cfg Audio = word_of_int (cfg_port cfg + 10)"
| "get_sunshine_port cfg Control = word_of_int (cfg_port cfg + 8)"

fun relay_port_of :: "ChannelManager \<Rightarrow> UdpChannelType \<Rightarrow> 16 word" where
  "relay_port_of m Video = cm_relay_video_port m"
| "relay_port_of m Audio = cm_relay_audio_port m"
| "relay_port_of m Control = cm_relay_control_port m"

definition handle_channel_setup ::
  "sunshine_cfg \<Rightarrow> udp_os \<Rightarrow> UdpChannelSetupMessage \<Rightarrow> ChannelManager
     \<Rightarrow> UdpChannelAckMessage \<times> ChannelManager" where
  "handle_channel_setup cfg os setup m =
     (let ack = \<lparr>ack_session_id = setup_session_id setup, ack_channel = setup_channel setup,
                 ack_relay_port = 0, ack_local_port = 0\<rparr>
      in if \<not> cm_running m then (ack, m)
         else
           let sunshine_port = get_sunshine_port cfg (setup_channel setup)
           in if sunshine_port = 0 then (ack, m)
              else
                let relay_port = relay_port_of m (setup_channel setup)
                in (case cm_channels m (setup_channel setup) of
                     Some existing \<Rightarrow>
                       (ack\<lparr>ack_relay_port := relay_port,
                            ack_local_port := ch_local_port existing\<rparr>, m)
                   | None \<Rightarrow>
                       (case os_bind os of
                          Inl e \<Rightarrow> (ack, m)
                        | Inr bound \<Rightarrow>
                            (case os_resolve os of
                               Inl e \<Rightarrow> (ack, m)
                             | Inr relay_addr \<Rightarrow>
                                 (case os_thread os of
                                    Some e \<Rightarrow> (ack, m)
                                  | None \<Rightarrow>
                                      (ack\<lparr>ack_relay_port := relay_port,
                                           ack_local_port := bound\<rparr>,
                                       m\<lparr>cm_channels := (cm_channels m)(setup_channel setup \<mapsto>
                                           \<lparr>ch_relay_endpoint = (relay_addr, relay_port),
                                            ch_local_endpoint = (''127.0.0.1'', sunshine_port),
                                            ch_local_port = bound,
                                            ch_running = True\<rparr>)\<rparr>))))))"

definition get_local_port :: "ChannelManager \<Rightarrow> UdpChannelType \<Rightarrow> 16 word" where
  "get_local_port m channel = (case cm_channels m channel of Some ch \<Rightarrow> ch_local_port ch | None \<Rightarrow> 0)"

text \<open>
  The process-wide manager \<open>g_channel_manager\<close> is a pointer that
  \<open>get_channel_manager\<close> fills on first use.
\<close>

definition get_channel_manager :: "ChannelManager option \<Rightarrow> ChannelManager" where
  "get_channel_manager g = (case g of None \<Rightarrow> ChannelManager_new | Some m \<Rightarrow> m)"

definition udp_handle_channel_setup ::
  "sunshine_cfg \<Rightarrow> udp_os \<Rightarrow> UdpChannelSetupMessage \<Rightarrow> ChannelManager option
     \<Rightarrow> UdpChannelAckMessage \<times> ChannelManager option" where
  "udp_handle_channel_setup cfg os setup g =
     (case handle_channel_setup cfg os setup (get_channel_manager g) of
        (ack, m) \<Rightarrow> (ack, Some m))"

text \<open>The operations on a manager, and the states they reach from a fresh one.\<close>

datatype manager_op =
    Initialize string "16 word" "16 word" "16 word"
  | Shutdown
  | Setup udp_os UdpChannelSetupMessage

fun manager_step :: "sunshine_cfg \<Rightarrow> manager_op \<Rightarrow> ChannelManager \<Rightarrow> ChannelManager" where
  "manager_step cfg (Initialize h v a c) m = initialize h v a c m"
| "manager_step cfg Shutdown m = shutdown m"
| "manager_step cfg (Setup os setup) m = snd (handle_channel_setup cfg os setup m)"

definition manager_run :: "sunshine_cfg \<Rightarrow> manager_op list \<Rightarrow> ChannelManager \<Rightarrow> ChannelManager" where
  "manager_run cfg ops m = foldl (\<lambda>m' op. manager_step cfg op m') m ops"

fun is_shutdown :: "manager_op \<Rightarrow> bool" where
  "is_shutdown Shutdown = True"
| "is_shutdown (Initialize h v a c) = False"
| "is_shutdown (Setup os setup) = False"

section \<open>handler.cpp: the loopback HTTP and RTSP forwarder\<close>

text \<open>
  What the loopback socket does during one forwarded request: whether resolving and
  connecting throws, whether the write throws, the bytes in the buffer when \<open>read_until\<close>
  returns (its error code is ignored), the bytes that later reads deliver before the end of
  the stream or an error, and whether \<open>close\<close> throws. Two more inputs stand for what the
  C++ leaves open: the value of the uninitialised \<open>status_code\<close>, which is returned when
  the extraction never stores one, and the largest \<open>std::vector<char>\<close> that can be
  allocated.
\<close>

record socket_io =
  sk_connect :: "exn option"
  sk_write :: "exn option"
  sk_received :: string
  sk_rest :: string
  sk_close :: "exn option"
  sk_indeterminate :: int
  sk_alloc_limit :: nat

definition crlf :: string where
  "crlf = [CHR 0x0D, CHR 0x0A]"

subsection \<open>Building the request\<close>

text \<open>The loop over the request headers, lines 61-70: each one is written unless its
  lower-cased name is one of three.\<close>

fun forward_headers :: "smap \<Rightarrow> string" where
  "forward_headers [] = []"
| "forward_headers ((key, val) # hs) =
     (let lower_key = map tolower key
      in if lower_key = ''host'' \<or> lower_key = ''connection''
            \<or> lower_key = ''transfer-encoding''
         then forward_headers hs
         else key @ '': '' @ val @ crlf @ forward_headers hs)"

definition http_request_text ::
  "16 word \<Rightarrow> string \<Rightarrow> string \<Rightarrow> string \<Rightarrow> smap \<Rightarrow> string \<Rightarrow> string \<Rightarrow> string" where
  "http_request_text local_port method path query headers body client_addr =
     (let full_path = (if query \<noteq> [] then path @ ''?'' @ query else path)
      in method @ '' '' @ full_path @ '' HTTP/1.1'' @ crlf
         @ ''Host: 127.0.0.1:'' @ decimal (unat local_port) @ crlf
         @ forward_headers headers
         @ ''X-Forwarded-For: '' @ client_addr @ crlf
         @ ''X-Starbeam-Client: '' @ client_addr @ crlf
         @ (if body \<noteq> [] then ''Content-Length: '' @ decimal (length body) @ crlf else [])
         @ ''Connection: close'' @ crlf
         @ crlf
         @ (if body \<noteq> [] then body else []))"

definition http_local_port :: "sunshine_cfg \<Rightarrow> bool \<Rightarrow> 16 word" where
  "http_local_port cfg is_https =
     cfg_map_port cfg (if is_https then cfg_PORT_HTTPS cfg else cfg_PORT_HTTP cfg)"

fun rtsp_headers :: "smap \<Rightarrow> string" where
  "rtsp_headers [] = []"
| "rtsp_headers ((key, val) # hs) = key @ '': '' @ val @ crlf @ rtsp_headers hs"

definition rtsp_request_text :: "string \<Rightarrow> string \<Rightarrow> smap \<Rightarrow> string \<Rightarrow> string \<Rightarrow> string" where
  "rtsp_request_text method uri headers body client_addr =
     method @ '' '' @ uri @ '' RTSP/1.0'' @ crlf
     @ rtsp_headers headers
     @ ''X-Starbeam-Client: '' @ client_addr @ crlf
     @ (if body \<noteq> [] then ''Content-Length: '' @ decimal (length body) @ crlf else [])
     @ crlf
     @ (if body \<noteq> [] then body else [])"

subsection \<open>Reading the reply\<close>

text \<open>
  The reply is parsed through a \<open>std::istream\<close> on the buffer. The stream is the bytes
  not yet consumed and its state: good, at the end (\<open>eofbit\<close> alone), or failed. Once it is
  not good every extraction fails and stores nothing.
  \<^item> \<open>>> std::string\<close> skips white space and takes the characters up to the next white
    space (the HTTP or RTSP version, which is not used);
  \<^item> \<open>>> int\<close> skips white space and reads an optional sign and decimal digits; without a
    digit it stores 0 and fails, out of range it stores the nearest bound and fails;
  \<^item> \<open>std::getline\<close> takes the characters up to the next line feed, which it consumes, or
    up to the end; it fails only when there is nothing left.
\<close>

datatype stream_state = Good | Eof | Fail

type_synonym istream = "string \<times> stream_state"

definition skip_token :: "istream \<Rightarrow> istream" where
  "skip_token s =
     (if snd s = Good then
        (let b1 = dropWhile isspace (fst s)
         in if b1 = [] then ([], Fail)
            else (let b2 = dropWhile (\<lambda>c. \<not> isspace c) b1
                  in (b2, if b2 = [] then Eof else Good)))
      else (fst s, Fail))"

definition extract_int :: "int \<Rightarrow> istream \<Rightarrow> int \<times> istream" where
  "extract_int old s =
     (if snd s = Good then
        (case dropWhile isspace (fst s) of
           [] \<Rightarrow> (old, ([], Fail))
         | c # cs \<Rightarrow>
             (let negative = (c = CHR ''-'');
                  b2 = (if c = CHR ''-'' \<or> c = CHR ''+'' then cs else c # cs);
                  ds = takeWhile isdigit b2;
                  rest = dropWhile isdigit b2;
                  v = int (dec_value ds)
              in if ds = [] then (0, (b2, Fail))
                 else if negative \<and> 2147483648 < v then (- 2147483648, (rest, Fail))
                 else if \<not> negative \<and> 2147483647 < v then (2147483647, (rest, Fail))
                 else (if negative then - v else v, (rest, if rest = [] then Eof else Good))))
      else (old, (fst s, Fail)))"

definition getline :: "istream \<Rightarrow> string option \<times> istream" where
  "getline s =
     (if snd s = Good then
        (if fst s = [] then (None, ([], Fail))
         else (Some (takeWhile (\<lambda>c. c \<noteq> CHR 0x0A) (fst s)),
               case dropWhile (\<lambda>c. c \<noteq> CHR 0x0A) (fst s) of
                 [] \<Rightarrow> ([], Eof)
               | c # cs \<Rightarrow> (cs, Good)))
      else (None, (fst s, Fail)))"

text \<open>Removing one trailing carriage return; splitting a header line at its first colon,
  the value without its leading blanks.\<close>

definition strip_cr :: "string \<Rightarrow> string" where
  "strip_cr l = (if l \<noteq> [] \<and> last l = CHR 0x0D then butlast l else l)"

definition split_header :: "string \<Rightarrow> (string \<times> string) option" where
  "split_header line =
     (case dropWhile (\<lambda>c. c \<noteq> CHR '':'') line of
        [] \<Rightarrow> None
      | c # cs \<Rightarrow>
          Some (takeWhile (\<lambda>c. c \<noteq> CHR '':'') line, dropWhile (\<lambda>c. c = CHR '' '') cs))"

text \<open>
  \<open>std::stoul\<close> in base 10 on a 64-bit \<open>unsigned long\<close>: leading white space, an optional
  sign, digits; what follows the digits is ignored. No digit: \<open>std::invalid_argument\<close>;
  digits beyond the type: \<open>std::out_of_range\<close>; after a minus the value is negated modulo
  the width.
\<close>

definition stoul :: "string \<Rightarrow> exn + nat" where
  "stoul str =
     (let s1 = dropWhile isspace str;
          signed = (case s1 of [] \<Rightarrow> False | c # cs \<Rightarrow> c = CHR ''-'' \<or> c = CHR ''+'');
          negative = (case s1 of [] \<Rightarrow> False | c # cs \<Rightarrow> c = CHR ''-'');
          ds = takeWhile isdigit (if signed then tl s1 else s1);
          v = dec_value ds
      in if ds = [] then Inl invalid_argument
         else if 2 ^ 64 \<le> v then Inl out_of_range
         else Inr (if negative then (2 ^ 64 - v) mod 2 ^ 64 else v))"

lemma getline_shorter:
  assumes "fst (getline s) = Some l"
  shows "length (fst (snd (getline s))) < length (fst s)"
proof -
  from assms have g: "snd s = Good" and ne: "fst s \<noteq> []"
    by (auto simp add: getline_def split: if_splits)
  show ?thesis
  proof (cases "dropWhile (\<lambda>c. c \<noteq> CHR 0x0A) (fst s)")
    case Nil
    show ?thesis using g ne by (simp add: getline_def Nil)
  next
    case (Cons c cs)
    have "length (dropWhile (\<lambda>c. c \<noteq> CHR 0x0A) (fst s)) \<le> length (fst s)"
      by (rule length_dropWhile_le)
    with Cons have "length cs < length (fst s)" by simp
    then show ?thesis using g ne by (simp add: getline_def Cons)
  qed
qed

text \<open>
  The loop over the reply's header lines (lines 113-136 and 253-273): it ends when
  \<open>getline\<close> fails, at a line that is a lone carriage return, and at an empty line;
  otherwise \<open>field\<close> takes the line into account, and may throw.
\<close>

function header_loop ::
  "(string \<Rightarrow> 'a \<Rightarrow> exn + 'a) \<Rightarrow> istream \<Rightarrow> 'a \<Rightarrow> exn + (istream \<times> 'a)" where
  "header_loop field s acc =
     (case fst (getline s) of
        None \<Rightarrow> Inr (snd (getline s), acc)
      | Some header_line \<Rightarrow>
          if header_line = [CHR 0x0D] then Inr (snd (getline s), acc)
          else if strip_cr header_line = [] then Inr (snd (getline s), acc)
          else (case field (strip_cr header_line) acc of
                  Inl e \<Rightarrow> Inl e
                | Inr acc' \<Rightarrow> header_loop field (snd (getline s)) acc'))"
  by pat_completeness auto
termination
  by (relation "measure (\<lambda>(field, s, acc). length (fst s))") (auto simp add: getline_shorter)

declare header_loop.simps [simp del]

text \<open>What a header line does to \<open>(content_type, content_length)\<close> in the HTTP forwarder
  and to \<open>(response_headers, content_length)\<close> in the RTSP forwarder.\<close>

definition http_header_field :: "string \<Rightarrow> string \<times> nat \<Rightarrow> exn + (string \<times> nat)" where
  "http_header_field line acc =
     (case split_header line of
        None \<Rightarrow> Inr acc
      | Some (key, val) \<Rightarrow>
          (let lower_key = map tolower key
           in if lower_key = ''content-type'' then Inr (val, snd acc)
              else if lower_key = ''content-length''
                then bind_exn (stoul val) (\<lambda>n. Inr (fst acc, n))
              else Inr acc))"

definition rtsp_header_field :: "string \<Rightarrow> smap \<times> nat \<Rightarrow> exn + (smap \<times> nat)" where
  "rtsp_header_field line acc =
     (case split_header line of
        None \<Rightarrow> Inr acc
      | Some (key, val) \<Rightarrow>
          (let response_headers = smap_set key val (fst acc);
               lower_key = map tolower key
           in if lower_key = ''content-length''
                then bind_exn (stoul val) (\<lambda>n. Inr (response_headers, n))
              else Inr (response_headers, snd acc)))"

text \<open>
  The body. With a content length above 0 it is what is left in the buffer, and, while that
  is shorter than the content length, what the socket still delivers, up to the missing
  number of bytes; the vector for the missing bytes must be allocated. Without one the HTTP
  forwarder reads to the end of the stream and the RTSP forwarder returns no body.
\<close>

definition read_body :: "socket_io \<Rightarrow> bool \<Rightarrow> string \<Rightarrow> nat \<Rightarrow> exn + string" where
  "read_body io until_eof remaining content_length =
     (if 0 < content_length then
        (if length remaining < content_length then
           (if sk_alloc_limit io < content_length - length remaining then Inl bad_alloc
            else Inr (remaining @ take (content_length - length remaining) (sk_rest io)))
         else Inr remaining)
      else if until_eof then Inr (remaining @ sk_rest io)
      else Inr [])"

definition http_read_reply :: "socket_io \<Rightarrow> exn + (int \<times> string \<times> string)" where
  "http_read_reply io =
     (let after_version = skip_token (sk_received io, Good);
          status = extract_int (sk_indeterminate io) after_version;
          after_status_line = snd (getline (snd status))
      in bind_exn (header_loop http_header_field after_status_line ([], 0)) (\<lambda>parsed.
         bind_exn (read_body io True (fst (fst parsed)) (snd (snd parsed))) (\<lambda>response_body.
           case sk_close io of
             Some e \<Rightarrow> Inl e
           | None \<Rightarrow> Inr (fst status, fst (snd parsed), response_body))))"

definition trim_reason :: "string \<Rightarrow> string" where
  "trim_reason reason =
     strip_cr (case reason of [] \<Rightarrow> [] | c # cs \<Rightarrow> if c = CHR '' '' then cs else c # cs)"

definition rtsp_read_reply :: "socket_io \<Rightarrow> exn + (int \<times> string \<times> smap \<times> string)" where
  "rtsp_read_reply io =
     (let after_version = skip_token (sk_received io, Good);
          status = extract_int (sk_indeterminate io) after_version;
          reason_line = getline (snd status);
          reason = trim_reason (case fst reason_line of None \<Rightarrow> [] | Some r \<Rightarrow> r)
      in bind_exn (header_loop rtsp_header_field (snd reason_line) ([], 0)) (\<lambda>parsed.
         bind_exn (read_body io False (fst (fst parsed)) (snd (snd parsed))) (\<lambda>response_body.
           case sk_close io of
             Some e \<Rightarrow> Inl e
           | None \<Rightarrow> Inr (fst status, reason, fst (snd parsed), response_body))))"

subsection \<open>The two forwarders\<close>

text \<open>
  The \<open>try\<close> block of \<open>handle_http_request\<close>: the bytes handed to \<open>asio::write\<close>
  (when that call is reached) and what the block ends in. The \<open>catch\<close> clause takes every
  \<open>std::exception\<close>.
\<close>

definition http_try ::
  "sunshine_cfg \<Rightarrow> socket_io \<Rightarrow> string \<Rightarrow> string \<Rightarrow> string \<Rightarrow> smap \<Rightarrow> string \<Rightarrow> string \<Rightarrow> bool
     \<Rightarrow> string option \<times> (exn + (int \<times> string \<times> string))" where
  "http_try cfg io method path query headers body client_addr is_https =
     (case sk_connect io of
        Some e \<Rightarrow> (None, Inl e)
      | None \<Rightarrow>
          (let request = http_request_text (http_local_port cfg is_https)
                           method path query headers body client_addr
           in (case sk_write io of
                 Some e \<Rightarrow> (Some request, Inl e)
               | None \<Rightarrow> (Some request, http_read_reply io))))"

definition handle_http_request ::
  "sunshine_cfg \<Rightarrow> socket_io \<Rightarrow> string \<Rightarrow> string \<Rightarrow> string \<Rightarrow> smap \<Rightarrow> string \<Rightarrow> string \<Rightarrow> bool
     \<Rightarrow> int \<times> string \<times> string" where
  "handle_http_request cfg io method path query headers body client_addr is_https =
     (case snd (http_try cfg io method path query headers body client_addr is_https) of
        Inr result \<Rightarrow> result
      | Inl e \<Rightarrow> (500, ''text/plain'', ''Internal Server Error''))"

definition rtsp_try ::
  "socket_io \<Rightarrow> string \<Rightarrow> string \<Rightarrow> smap \<Rightarrow> string \<Rightarrow> string
     \<Rightarrow> string option \<times> (exn + (int \<times> string \<times> smap \<times> string))" where
  "rtsp_try io method uri headers body client_addr =
     (case sk_connect io of
        Some e \<Rightarrow> (None, Inl e)
      | None \<Rightarrow>
          (let request = rtsp_request_text method uri headers body client_addr
           in (case sk_write io of
                 Some e \<Rightarrow> (Some request, Inl e)
               | None \<Rightarrow> (Some request, rtsp_read_reply io))))"

definition handle_rtsp_request ::
  "socket_io \<Rightarrow> string \<Rightarrow> string \<Rightarrow> smap \<Rightarrow> string \<Rightarrow> string \<Rightarrow> int \<times> string \<times> smap \<times> string" where
  "handle_rtsp_request io method uri headers body client_addr =
     (case snd (rtsp_try io method uri headers body client_addr) of
        Inr result \<Rightarrow> result
      | Inl e \<Rightarrow> (500, ''Internal Server Error'', [], []))"

section \<open>tunnel.h, tunnel.cpp: the handlers the client calls\<close>

type_synonym NvhttpHandler =
  "socket_io \<Rightarrow> string \<Rightarrow> string \<Rightarrow> string \<Rightarrow> smap \<Rightarrow> string \<Rightarrow> string \<Rightarrow> bool
     \<Rightarrow> exn + (int \<times> string \<times> string)"

type_synonym RtspHandler =
  "socket_io \<Rightarrow> string \<Rightarrow> string \<Rightarrow> smap \<Rightarrow> string \<Rightarrow> string
     \<Rightarrow> exn + (int \<times> string \<times> smap \<times> string)"

definition value_or :: "'a option \<Rightarrow> 'a \<Rightarrow> 'a" where
  "value_or x d = (case x of None \<Rightarrow> d | Some v \<Rightarrow> v)"

text \<open>
  The first argument is the slot \<open>g_nvhttp_handler\<close> as it is when the call is made.
  \<open>resp.status = status\<close> stores an \<open>int\<close> in a \<open>uint16_t\<close>.
\<close>

definition tunnel_handle_http_request ::
  "NvhttpHandler option \<Rightarrow> socket_io \<Rightarrow> HttpRequestMessage \<Rightarrow> HttpResponseMessage" where
  "tunnel_handle_http_request g_nvhttp_handler io req =
     (case g_nvhttp_handler of
        None \<Rightarrow>
          \<lparr>hresp_id = hreq_id req, hresp_status = 500, hresp_headers = [],
           hresp_body = Some ''Internal Server Error: No handler''\<rparr>
      | Some handler \<Rightarrow>
          (case handler io (hreq_method req) (hreq_path req) (value_or (hreq_query req) [])
                  (hreq_headers req) (value_or (hreq_body req) []) (hreq_client_addr req)
                  (hreq_is_https req) of
             Inr (status, content_type, body) \<Rightarrow>
               \<lparr>hresp_id = hreq_id req, hresp_status = word_of_int status,
                hresp_headers =
                  (if content_type \<noteq> [] then smap_set ''Content-Type'' content_type [] else []),
                hresp_body = (if body \<noteq> [] then Some body else None)\<rparr>
           | Inl e \<Rightarrow>
               \<lparr>hresp_id = hreq_id req, hresp_status = 500, hresp_headers = [],
                hresp_body = Some ''Internal Server Error''\<rparr>))"

definition tunnel_handle_rtsp_request ::
  "RtspHandler option \<Rightarrow> socket_io \<Rightarrow> RtspRequestMessage \<Rightarrow> RtspResponseMessage" where
  "tunnel_handle_rtsp_request g_rtsp_handler io req =
     (case g_rtsp_handler of
        None \<Rightarrow>
          \<lparr>rresp_id = rreq_id req, rresp_status = 500,
           rresp_reason = ''Internal Server Error'', rresp_headers = [], rresp_body = None\<rparr>
      | Some handler \<Rightarrow>
          (case handler io (rreq_method req) (rreq_uri req) (rreq_headers req)
                  (value_or (rreq_body req) []) (rreq_client_addr req) of
             Inr (status, reason, headers, body) \<Rightarrow>
               \<lparr>rresp_id = rreq_id req, rresp_status = word_of_int status,
                rresp_reason = reason, rresp_headers = headers,
                rresp_body = (if body \<noteq> [] then Some body else None)\<rparr>
           | Inl e \<Rightarrow>
               \<lparr>rresp_id = rreq_id req, rresp_status = 500,
                rresp_reason = ''Internal Server Error'', rresp_headers = [],
                rresp_body = None\<rparr>))"

text \<open>\<open>handler::initialize\<close> installs the two forwarders in the tunnel's slots.\<close>

definition forwarder_nvhttp :: "sunshine_cfg \<Rightarrow> NvhttpHandler" where
  "forwarder_nvhttp cfg io method path query headers body client_addr is_https =
     Inr (handle_http_request cfg io method path query headers body client_addr is_https)"

definition forwarder_rtsp :: RtspHandler where
  "forwarder_rtsp io method uri headers body client_addr =
     Inr (handle_rtsp_request io method uri headers body client_addr)"

section \<open>client.h, client.cpp: the control client\<close>

datatype ConnectionState = Disconnected | Connecting | Connected | Registered | Error

text \<open>Where the IO thread is (see the last subsection).\<close>

datatype thread_pos = Head | Entered | Running | Finished

subsection \<open>URL parsing\<close>

text \<open>
  \<open>parse_url\<close> matches the whole URL against the regular expression
  \<open>(wss?):\/\/([^:/]+)(?::(\d+))?(\/.*)?\<close> with \<open>std::regex::icase\<close>. Every piece
  of it can match in one way only, so the match is read off from left to right: the scheme
  (letters compared without case), then \<open>://\<close>, the longest run of characters other than
  \<open>:\<close> and \<open>/\<close> as the host, an optional \<open>:\<close> with at least one digit, and an
  optional rest that starts with \<open>/\<close> and, \<open>.\<close> matching no line terminator, holds
  neither a line feed nor a carriage return. The out parameters are set only on a match.
\<close>

record url_parts =
  url_host :: string
  url_port :: string
  url_path :: string
  url_use_ssl :: bool

definition scheme_length :: "string \<Rightarrow> nat" where
  "scheme_length url =
     (if map tolower (take 6 url) = ''wss://'' then 3
      else if map tolower (take 5 url) = ''ws://'' then 2
      else 0)"

definition host_char :: "char \<Rightarrow> bool" where
  "host_char c = (\<not> (c = CHR '':'' \<or> c = CHR ''/''))"

definition line_terminator :: "char \<Rightarrow> bool" where
  "line_terminator c = (c = CHR 0x0A \<or> c = CHR 0x0D)"

definition parse_url :: "string \<Rightarrow> url_parts option" where
  "parse_url url =
     (let n = scheme_length url;
          scheme = take n url;
          after_scheme = drop (n + 3) url;
          host = takeWhile host_char after_scheme;
          after_host = dropWhile host_char after_scheme;
          has_port = (case after_host of [] \<Rightarrow> False | c # cs \<Rightarrow> c = CHR '':'');
          port_digits = (if has_port then takeWhile isdigit (tl after_host) else []);
          after_port = (if has_port then dropWhile isdigit (tl after_host) else after_host);
          has_path = (after_port \<noteq> []);
          path_ok = (case after_port of
                       [] \<Rightarrow> True
                     | c # cs \<Rightarrow> c = CHR ''/'' \<and> \<not> list_ex line_terminator cs)
      in if n = 0 \<or> host = [] \<or> (has_port \<and> port_digits = []) \<or> \<not> path_ok
         then None
         else
           (let use_ssl = (scheme = ''wss'' \<or> scheme = ''WSS'')
            in Some \<lparr>url_host = host,
                     url_port = (if has_port then port_digits
                                 else if use_ssl then ''443'' else ''80''),
                     url_path = (if has_path then after_port else ''/''),
                     url_use_ssl = use_ssl\<rparr>))"

subsection \<open>The client object\<close>

text \<open>
  What the network answers during \<open>connect\<close> and during the handling of one frame.
\<close>

record connect_io =
  cio_resolve :: "exn option"
  cio_handshake :: "exn option"
  cio_write :: "exn option"

record frame_io =
  fio_write :: "exn option"
  fio_http :: socket_io
  fio_rtsp :: socket_io
  fio_udp :: udp_os

type_synonym HttpRequestHandler = "socket_io \<Rightarrow> HttpRequestMessage \<Rightarrow> exn + HttpResponseMessage"

type_synonym RtspRequestHandler = "socket_io \<Rightarrow> RtspRequestMessage \<Rightarrow> exn + RtspResponseMessage"

type_synonym UdpChannelSetupHandler =
  "udp_os \<Rightarrow> UdpChannelSetupMessage \<Rightarrow> ChannelManager option
     \<Rightarrow> UdpChannelAckMessage \<times> ChannelManager option"

text \<open>
  The members of \<open>Client\<close> (without the trailing underscore, with the prefix \<open>c_\<close>). A
  smart pointer is the flag "not null"; \<open>io_context_\<close> also records whether it was stopped,
  \<open>io_thread_\<close> where its thread is. The TLS context, the read buffer, the unused send
  queue and the reconnect interval are left out.
  The callbacks without a result are the flag "set" and the list of calls made to them.
  \<open>c_written\<close> lists the frames handed to the WebSocket \<open>write\<close>, each with whether the
  write returned without throwing.
\<close>

record Client =
  c_server_url :: string
  c_auth_key :: string
  c_host_id :: string
  c_hostname :: string
  c_unique_id :: string
  c_state :: ConnectionState
  c_running :: bool
  c_assigned_host_id :: string
  c_assigned_ports :: PortAssignment
  c_io_context :: "bool option"
  c_wss :: bool
  c_ws :: bool
  c_use_ssl :: bool
  c_io_thread :: "thread_pos option"
  c_http_handler :: "HttpRequestHandler option"
  c_rtsp_handler :: "RtspRequestHandler option"
  c_session_start_handler :: bool
  c_session_end_handler :: bool
  c_udp_channel_handler :: "UdpChannelSetupHandler option"
  c_state_handler :: bool
  c_written :: "(string \<times> bool) list"
  c_state_calls :: "(ConnectionState \<times> ConnectionState) list"
  c_session_start_calls :: "SessionStartMessage list"
  c_session_end_calls :: "64 word list"

record world =
  client :: Client
  g_channel_manager :: "ChannelManager option"

definition no_ports :: PortAssignment where
  "no_ports = \<lparr>http = 0, https = 0, rtsp = 0, video = 0, audio = 0, control = 0\<rparr>"

text \<open>The constructor; the host name and the unique id come from the platform and the clock.\<close>

definition Client_new :: "string \<Rightarrow> string \<Rightarrow> string \<Rightarrow> string \<Rightarrow> string \<Rightarrow> Client" where
  "Client_new server_url auth_key host_id hostname unique_id =
     \<lparr>c_server_url = server_url, c_auth_key = auth_key, c_host_id = host_id,
      c_hostname = hostname, c_unique_id = unique_id,
      c_state = Disconnected, c_running = False,
      c_assigned_host_id = [], c_assigned_ports = no_ports,
      c_io_context = None, c_wss = False, c_ws = False, c_use_ssl = False,
      c_io_thread = None,
      c_http_handler = None, c_rtsp_handler = None,
      c_session_start_handler = False, c_session_end_handler = False,
      c_udp_channel_handler = None, c_state_handler = False,
      c_written = [], c_state_calls = [],
      c_session_start_calls = [], c_session_end_calls = []\<rparr>"

definition set_state :: "ConnectionState \<Rightarrow> Client \<Rightarrow> Client" where
  "set_state new_state c =
     (let old_state = c_state c;
          c' = c\<lparr>c_state := new_state\<rparr>
      in if old_state \<noteq> new_state \<and> c_state_handler c
         then c'\<lparr>c_state_calls := c_state_calls c @ [(old_state, new_state)]\<rparr>
         else c')"

definition is_ready :: "Client \<Rightarrow> bool" where
  "is_ready c = (c_state c = Registered)"

definition get_state :: "Client \<Rightarrow> ConnectionState" where
  "get_state c = c_state c"

definition get_host_id :: "Client \<Rightarrow> string" where
  "get_host_id c = c_assigned_host_id c"

definition get_ports :: "Client \<Rightarrow> PortAssignment" where
  "get_ports c = c_assigned_ports c"

text \<open>\<open>send_message\<close> catches what the write throws: the frame is dropped.\<close>

definition send_message :: "exn option \<Rightarrow> string \<Rightarrow> Client \<Rightarrow> Client" where
  "send_message wr message c =
     (if c_use_ssl c \<and> c_wss c then c\<lparr>c_written := c_written c @ [(message, wr = None)]\<rparr>
      else if c_ws c then c\<lparr>c_written := c_written c @ [(message, wr = None)]\<rparr>
      else c)"

definition send_session_end :: "exn option \<Rightarrow> 64 word \<Rightarrow> string \<Rightarrow> Client \<Rightarrow> Client" where
  "send_session_end wr session_id reason c =
     send_message wr
       (SessionEndMessage_to_json
          \<lparr>se_session_id = session_id,
           se_reason = (if reason \<noteq> [] then Some reason else None)\<rparr>) c"

definition send_registration :: "exn option \<Rightarrow> Client \<Rightarrow> Client" where
  "send_registration wr c =
     send_message wr
       (RegisterMessage_to_json
          \<lparr>reg_hostname = c_hostname c,
           reg_unique_id = c_unique_id c,
           reg_host_id = (if c_host_id c \<noteq> [] then Some (c_host_id c) else None),
           reg_auth_key = c_auth_key c,
           reg_capabilities =
             \<lparr>max_width = None, max_height = None, max_fps = None,
              video_codecs = [''H264'', ''HEVC'', ''AV1''],
              audio_codecs = [''opus'']\<rparr>\<rparr>) c"

text \<open>
  \<open>connect\<close> returns the exception that left it, if any, and the client as it then is.
\<close>

definition connect :: "connect_io \<Rightarrow> Client \<Rightarrow> exn option \<times> Client" where
  "connect io c0 =
     (let c1 = set_state Connecting c0
      in case parse_url (c_server_url c1) of
           None \<Rightarrow> (None, set_state Error c1)
         | Some u \<Rightarrow>
             (let c2 = c1\<lparr>c_use_ssl := url_use_ssl u, c_io_context := Some False\<rparr>
              in (case cio_resolve io of
                    Some e \<Rightarrow> (Some e, c2)
                  | None \<Rightarrow>
                      (let c3 = (if c_use_ssl c2 then c2\<lparr>c_wss := True\<rparr> else c2\<lparr>c_ws := True\<rparr>)
                       in (case cio_handshake io of
                             Some e \<Rightarrow> (Some e, c3)
                           | None \<Rightarrow>
                               (None, send_registration (cio_write io)
                                        (set_state Connected c3)))))))"

definition disconnect :: "Client \<Rightarrow> Client" where
  "disconnect c =
     set_state Disconnected
       (c\<lparr>c_wss := False, c_ws := False, c_io_context := None,
          c_assigned_host_id := [], c_assigned_ports := no_ports\<rparr>)"

definition handle_message :: "frame_io \<Rightarrow> frame \<Rightarrow> world \<Rightarrow> exn + world" where
  "handle_message io message w =
     (let c = client w
      in case parse_message_type message of
           RegisterAck \<Rightarrow>
             bind_exn (RegisterAckMessage_from_json message) (\<lambda>ack.
               let c1 = set_state Registered
                          (c\<lparr>c_assigned_host_id := regack_host_id ack,
                             c_assigned_ports := regack_ports ack\<rparr>)
               in Inr (case parse_url (c_server_url c1) of
                         Some u \<Rightarrow>
                           \<lparr>client = c1,
                            g_channel_manager =
                              Some (initialize (url_host u)
                                      (video (c_assigned_ports c1))
                                      (audio (c_assigned_ports c1))
                                      (control (c_assigned_ports c1))
                                      (get_channel_manager (g_channel_manager w)))\<rparr>
                       | None \<Rightarrow> w\<lparr>client := c1\<rparr>))
         | RegisterError \<Rightarrow>
             bind_exn (ErrorMessage_from_json message) (\<lambda>err.
               Inr (w\<lparr>client := (set_state Error c)
                        \<lparr>c_io_context := map_option (\<lambda>stopped. True) (c_io_context c)\<rparr>\<rparr>))
         | HttpRequest \<Rightarrow>
             (case c_http_handler c of
                None \<Rightarrow> Inr w
              | Some handler \<Rightarrow>
                  bind_exn (HttpRequestMessage_from_json message) (\<lambda>req.
                  bind_exn (handler (fio_http io) req) (\<lambda>resp.
                    Inr (w\<lparr>client :=
                           send_message (fio_write io) (HttpResponseMessage_to_json resp) c\<rparr>))))
         | RtspRequest \<Rightarrow>
             (case c_rtsp_handler c of
                None \<Rightarrow> Inr w
              | Some handler \<Rightarrow>
                  bind_exn (RtspRequestMessage_from_json message) (\<lambda>req.
                  bind_exn (handler (fio_rtsp io) req) (\<lambda>resp.
                    Inr (w\<lparr>client :=
                           send_message (fio_write io) (RtspResponseMessage_to_json resp) c\<rparr>))))
         | SessionStart \<Rightarrow>
             (if c_session_start_handler c
              then bind_exn (SessionStartMessage_from_json message) (\<lambda>msg.
                     Inr (w\<lparr>client :=
                            c\<lparr>c_session_start_calls := c_session_start_calls c @ [msg]\<rparr>\<rparr>))
              else Inr w)
         | SessionEnd \<Rightarrow>
             (if c_session_end_handler c
              then bind_exn (with_tree message (get_unsigned ''session_id'')) (\<lambda>session_id.
                     Inr (w\<lparr>client :=
                            c\<lparr>c_session_end_calls := c_session_end_calls c @ [session_id]\<rparr>\<rparr>))
              else Inr w)
         | UdpChannelSetup \<Rightarrow>
             (case c_udp_channel_handler c of
                None \<Rightarrow> Inr w
              | Some handler \<Rightarrow>
                  bind_exn (UdpChannelSetupMessage_from_json message) (\<lambda>setup.
                    case handler (fio_udp io) setup (g_channel_manager w) of
                      (ack, g) \<Rightarrow>
                        Inr \<lparr>client =
                               send_message (fio_write io) (UdpChannelAckMessage_to_json ack) c,
                             g_channel_manager = g\<rparr>))
         | Ping \<Rightarrow>
             bind_exn (PingMessage_from_json message) (\<lambda>ping.
               Inr (w\<lparr>client :=
                      send_message (fio_write io)
                        (PongMessage_to_json \<lparr>pong_ts = ping_ts ping\<rparr>) c\<rparr>))
         | ErrorMsg \<Rightarrow>
             bind_exn (ErrorMessage_from_json message) (\<lambda>err. Inr w)
         | _ \<Rightarrow> Inr w)"

text \<open>
  \<open>tunnel::initialize\<close> registers the tunnel's handlers with the client. The tunnel's own
  slots are read when a request arrives; here they are the parameters.
\<close>

definition tunnel_initialize ::
  "sunshine_cfg \<Rightarrow> NvhttpHandler option \<Rightarrow> RtspHandler option \<Rightarrow> Client \<Rightarrow> Client" where
  "tunnel_initialize cfg g_nvhttp_handler g_rtsp_handler c =
     c\<lparr>c_http_handler :=
         Some (\<lambda>io req. Inr (tunnel_handle_http_request g_nvhttp_handler io req)),
       c_rtsp_handler :=
         Some (\<lambda>io req. Inr (tunnel_handle_rtsp_request g_rtsp_handler io req)),
       c_udp_channel_handler := Some (udp_handle_channel_setup cfg)\<rparr>"

subsection \<open>The IO thread and the public operations\<close>

text \<open>
  \<open>start\<close> and \<open>stop\<close> run on the caller's thread, \<open>run_io_context\<close> on the IO thread.
  The model interleaves them. The IO thread is at one of four places:
  \<^item> \<open>Head\<close>: about to test \<open>while (running_)\<close> (also while it sleeps before reconnecting);
  \<^item> \<open>Entered\<close>: the test was true, \<open>connect\<close> has not begun;
  \<^item> \<open>Running\<close>: inside \<open>io_context_->run()\<close> with a read pending;
  \<^item> \<open>Finished\<close>: the loop was left; the thread can be joined.

  One step of the thread takes it from one place to the next. A step is atomic: the flag
  \<open>running_\<close> and the stopped flag of the context, which the other thread writes, are
  read at the ends of a step only (the loop test, the test after \<open>handle_message\<close>, the
  return of \<open>run\<close>).
\<close>

text \<open>
  What the network offers to one step: the outcome of a \<open>connect\<close>, and what the pending
  read completes with, a frame or an error (\<open>None\<close>).
\<close>

record thread_input =
  ti_connect :: connect_io
  ti_read :: "(frame_io \<times> frame) option"

definition start :: "Client \<Rightarrow> Client" where
  "start c = (if c_running c then c else c\<lparr>c_running := True, c_io_thread := Some Head\<rparr>)"

text \<open>The end of a pass of the loop, lines 164-173: \<open>disconnect\<close>, then back to the test.\<close>

definition leave_run :: "world \<Rightarrow> world" where
  "leave_run w = w\<lparr>client := (disconnect (client w))\<lparr>c_io_thread := Some Head\<rparr>\<rparr>"

text \<open>
  In \<open>Running\<close>, \<open>run\<close> returns when the context was stopped; otherwise the read handler
  runs: on an error it stops the context, on a frame it calls \<open>handle_message\<close> and starts
  the next read if \<open>running_\<close> is set. An exception of \<open>handle_message\<close> leaves \<open>run\<close>
  and is caught in the loop. \<open>run\<close> also returns when no read is pending.
\<close>

definition thread_step :: "thread_input \<Rightarrow> world \<Rightarrow> world" where
  "thread_step i w =
     (case c_io_thread (client w) of
        None \<Rightarrow> w
      | Some Finished \<Rightarrow> w
      | Some Head \<Rightarrow>
          w\<lparr>client := (client w)
              \<lparr>c_io_thread := Some (if c_running (client w) then Entered else Finished)\<rparr>\<rparr>
      | Some Entered \<Rightarrow>
          (case connect (ti_connect i) (client w) of
             (e, c1) \<Rightarrow>
               if e = None \<and> (c_state c1 = Connected \<or> c_state c1 = Registered)
               then w\<lparr>client := c1\<lparr>c_io_thread := Some Running\<rparr>\<rparr>
               else leave_run (w\<lparr>client := c1\<rparr>))
      | Some Running \<Rightarrow>
          if c_io_context (client w) = Some True then leave_run w
          else (case ti_read i of
                  None \<Rightarrow> leave_run w
                | Some (io, message) \<Rightarrow>
                    (case handle_message io message w of
                       Inl e \<Rightarrow> leave_run w
                     | Inr w' \<Rightarrow>
                         if c_io_context (client w') = Some True \<or> \<not> c_running (client w')
                         then leave_run w' else w')))"

definition thread_run :: "thread_input list \<Rightarrow> world \<Rightarrow> world" where
  "thread_run inputs w = foldl (\<lambda>w' i. thread_step i w') w inputs"

text \<open>
  \<open>io_thread_->join()\<close> returns when the thread has finished. \<open>during\<close> is what the network
  offers to the thread's steps while the caller waits; when it is used up and the thread
  has not finished, the join does not return (\<open>None\<close>).
\<close>

fun join :: "thread_input list \<Rightarrow> world \<Rightarrow> world option" where
  "join [] w =
     (if c_io_thread (client w) = None \<or> c_io_thread (client w) = Some Finished
      then Some w else None)"
| "join (i # during) w =
     (if c_io_thread (client w) = None \<or> c_io_thread (client w) = Some Finished
      then Some w else join during (thread_step i w))"

text \<open>
  \<open>stop\<close>, lines 49-62: clear \<open>running_\<close>; stop the context if there is one; join the
  thread if there is one; reset \<open>io_thread_\<close>; set the state. The IO thread may take steps
  (\<open>between\<close>) after the flag is cleared and before the context is stopped.
\<close>

definition stop :: "thread_input list \<Rightarrow> thread_input list \<Rightarrow> world \<Rightarrow> world option" where
  "stop between during w =
     (let w1 = thread_run between (w\<lparr>client := (client w)\<lparr>c_running := False\<rparr>\<rparr>);
          w2 = w1\<lparr>client := (client w1)
                 \<lparr>c_io_context := map_option (\<lambda>stopped. True) (c_io_context (client w1))\<rparr>\<rparr>
      in case join during w2 of
           None \<Rightarrow> None
         | Some w3 \<Rightarrow>
             Some (w3\<lparr>client := set_state Disconnected ((client w3)\<lparr>c_io_thread := None\<rparr>)\<rparr>))"

text \<open>A history: calls of \<open>start\<close> and \<open>stop\<close> and steps of the IO thread, in some order.
  A history in which a \<open>stop\<close> does not return has no final state.\<close>

datatype event = Start | Thread thread_input | Stop "thread_input list" "thread_input list"

fun step :: "event \<Rightarrow> world \<Rightarrow> world option" where
  "step Start w = Some (w\<lparr>client := start (client w)\<rparr>)"
| "step (Thread i) w = Some (thread_step i w)"
| "step (Stop between during) w = stop between during w"

fun run_events :: "event list \<Rightarrow> world \<Rightarrow> world option" where
  "run_events [] w = Some w"
| "run_events (e # evs) w =
     (case step e w of None \<Rightarrow> None | Some w' \<Rightarrow> run_events evs w')"

section \<open>Properties and concrete inputs\<close>

text \<open>A WebSocket stream is there for \<open>send_message\<close> to write to.\<close>

definition stream_open :: "Client \<Rightarrow> bool" where
  "stream_open c = ((c_use_ssl c \<and> c_wss c) \<or> c_ws c)"






definition assigned_cleared :: "world \<Rightarrow> bool" where
  "assigned_cleared w =
     (c_assigned_host_id (client w) = [] \<and> c_assigned_ports (client w) = no_ports)"

text \<open>Outside \<open>io_context_->run()\<close> nothing is assigned.\<close>

definition thread_inv :: "world \<Rightarrow> bool" where
  "thread_inv w = (c_io_thread (client w) = Some Running \<or> assigned_cleared w)"

text \<open>How many steps the IO thread is from its end once \<open>running_\<close> is cleared.\<close>

definition steps_left :: "world \<Rightarrow> nat" where
  "steps_left w =
     (case c_io_thread (client w) of
        None \<Rightarrow> 0
      | Some Finished \<Rightarrow> 0
      | Some Head \<Rightarrow> 1
      | Some Running \<Rightarrow> 2
      | Some Entered \<Rightarrow> 3)"

subsection \<open>Concrete inputs\<close>

text \<open>
  A loopback server that answers \<open>HTTP/1.1 200 OK\<close>, \<open>Content-Type: text/plain\<close>,
  \<open>Content-Length: 2\<close> and the body \<open>hi\<close>, all of it in the buffer when the headers
  have been read; and an RTSP server that answers \<open>RTSP/1.0 200 OK\<close> with \<open>CSeq: 1\<close>.
\<close>

definition quiet_http_io :: socket_io where
  "quiet_http_io =
     \<lparr>sk_connect = None, sk_write = None,
      sk_received = ''HTTP/1.1 200 OK'' @ crlf @ ''Content-Type: text/plain'' @ crlf
                    @ ''Content-Length: 2'' @ crlf @ crlf @ ''hi'',
      sk_rest = [], sk_close = None, sk_indeterminate = 0, sk_alloc_limit = 65536\<rparr>"

definition quiet_rtsp_io :: socket_io where
  "quiet_rtsp_io =
     \<lparr>sk_connect = None, sk_write = None,
      sk_received = ''RTSP/1.0 200 OK'' @ crlf @ ''CSeq: 1'' @ crlf @ crlf,
      sk_rest = [], sk_close = None, sk_indeterminate = 0, sk_alloc_limit = 65536\<rparr>"

definition quiet_udp_os :: udp_os where
  "quiet_udp_os = \<lparr>os_bind = Inr 5000, os_resolve = Inr ''203.0.113.7'', os_thread = None\<rparr>"

definition quiet_frame_io :: frame_io where
  "quiet_frame_io =
     \<lparr>fio_write = None, fio_http = quiet_http_io, fio_rtsp = quiet_rtsp_io,
      fio_udp = quiet_udp_os\<rparr>"

definition example_client :: Client where
  "example_client = Client_new ''wss://relay.example.com'' ''secret'' [] ''host'' ''host_1''"

text \<open>The client as \<open>connect\<close> leaves it on a TLS connection, before any frame.\<close>

definition connected_client :: Client where
  "connected_client =
     example_client\<lparr>c_state := Connected, c_running := True, c_io_thread := Some Running,
       c_io_context := Some False, c_use_ssl := True, c_wss := True\<rparr>"

definition connected_world :: world where
  "connected_world = \<lparr>client = connected_client, g_channel_manager = None\<rparr>"

definition port_tree :: "string \<Rightarrow> ptree" where
  "port_tree p = Ptree []
     [(''http'', Ptree p []), (''https'', Ptree ''11'' []), (''rtsp'', Ptree ''12'' []),
      (''video'', Ptree ''13'' []), (''audio'', Ptree ''14'' []), (''control'', Ptree ''15'' [])]"

text \<open>The tree of \<open>{"type":"register_ack","host_id":hid,"ports":{"http":p,"https":11,...}}\<close>.\<close>

definition register_ack_frame :: "string \<Rightarrow> string \<Rightarrow> frame" where
  "register_ack_frame hid p =
     Some (Ptree [] [(''type'', Ptree ''register_ack'' []), (''host_id'', Ptree hid []),
                     (''ports'', port_tree p)])"


text \<open>The tree of \<open>{"type":"ping","ts":42}\<close>.\<close>

definition ping_tree :: ptree where
  "ping_tree = Ptree [] [(''type'', Ptree ''ping'' []), (''ts'', Ptree ''42'' [])]"

text \<open>The tree of \<open>{"type":"udp_channel_setup","session_id":1,"channel":ch,"client_addr":"1.2.3.4"}\<close>.\<close>

definition setup_tree :: "string \<Rightarrow> ptree" where
  "setup_tree ch =
     Ptree [] [(''type'', Ptree ''udp_channel_setup'' []), (''session_id'', Ptree ''1'' []),
               (''channel'', Ptree ch []), (''client_addr'', Ptree ''1.2.3.4'' [])]"

text \<open>
  A record exists only in a running manager and only for a channel whose local port is
  not 0: what \<open>handle_channel_setup\<close> checks before it creates one.
\<close>

definition manager_inv :: "sunshine_cfg \<Rightarrow> ChannelManager \<Rightarrow> bool" where
  "manager_inv cfg m =
     (\<forall>t. cm_channels m t \<noteq> None \<longrightarrow> cm_running m \<and> get_sunshine_port cfg t \<noteq> 0)"

definition zero_ack :: "UdpChannelSetupMessage \<Rightarrow> UdpChannelAckMessage" where
  "zero_ack setup =
     \<lparr>ack_session_id = setup_session_id setup, ack_channel = setup_channel setup,
      ack_relay_port = 0, ack_local_port = 0\<rparr>"

definition example_cfg :: sunshine_cfg where
  "example_cfg =
     \<lparr>cfg_port = 47989, cfg_map_port = (\<lambda>p. word_of_int (47989 + p)),
      cfg_PORT_HTTP = 0, cfg_PORT_HTTPS = - 5, cfg_RTSP_SETUP_PORT = 21\<rparr>"

definition running_manager :: ChannelManager where
  "running_manager = initialize ''relay.example.com'' 13 14 15 ChannelManager_new"

definition video_setup :: UdpChannelSetupMessage where
  "video_setup = \<lparr>setup_session_id = 1, setup_channel = Video, setup_client_addr = ''1.2.3.4''\<rparr>"

definition audio_setup :: UdpChannelSetupMessage where
  "audio_setup = \<lparr>setup_session_id = 1, setup_channel = Audio, setup_client_addr = ''1.2.3.4''\<rparr>"

definition other_udp_os :: udp_os where
  "other_udp_os = \<lparr>os_bind = Inr 6000, os_resolve = Inr ''203.0.113.7'', os_thread = None\<rparr>"

text \<open>
  The request of section 4.3 of the specification, written from its words: the request
  line, the Host header, the forwarded headers except three names compared without case,
  the two injected headers, Content-Length for a non-empty body, Connection: close, a blank
  line, the body.
\<close>

definition spec_header_line :: "string \<times> string \<Rightarrow> string" where
  "spec_header_line kv = fst kv @ '': '' @ snd kv @ crlf"

definition dropped_header :: "string \<Rightarrow> bool" where
  "dropped_header key = (map tolower key \<in> {''host'', ''connection'', ''transfer-encoding''})"

definition spec_http_request ::
  "16 word \<Rightarrow> string \<Rightarrow> string \<Rightarrow> string \<Rightarrow> smap \<Rightarrow> string \<Rightarrow> string \<Rightarrow> string" where
  "spec_http_request local_port method path query headers body client_addr =
     method @ '' '' @ path @ (if query = [] then [] else ''?'' @ query) @ '' HTTP/1.1'' @ crlf
     @ ''Host: 127.0.0.1:'' @ decimal (unat local_port) @ crlf
     @ concat (map spec_header_line (filter (\<lambda>kv. \<not> dropped_header (fst kv)) headers))
     @ ''X-Forwarded-For: '' @ client_addr @ crlf
     @ ''X-Starbeam-Client: '' @ client_addr @ crlf
     @ (if body = [] then [] else ''Content-Length: '' @ decimal (length body) @ crlf)
     @ ''Connection: close'' @ crlf
     @ crlf
     @ body"

text \<open>No server on the loopback port; and an RTSP server whose reply has the header
  \<open>Content-Length: abc\<close>.\<close>

definition refused_http_io :: socket_io where
  "refused_http_io = quiet_http_io\<lparr>sk_connect := Some system_error\<rparr>"

definition bad_length_rtsp_io :: socket_io where
  "bad_length_rtsp_io =
     quiet_rtsp_io\<lparr>sk_received := ''RTSP/1.0 200 OK'' @ crlf @ ''Content-Length: abc'' @ crlf
                                   @ crlf\<rparr>"

text \<open>Counting the \<open>http_response\<close> frames written and the \<open>http_request\<close> frames read.\<close>

definition is_http_response :: "string \<Rightarrow> bool" where
  \<open>is_http_response s = (take 23 s = ''{"type":"http_response"'')\<close>

definition http_responses_written :: "Client \<Rightarrow> nat" where
  "http_responses_written c = length (filter (\<lambda>fw. is_http_response (fst fw)) (c_written c))"

definition http_request_input :: "thread_input \<Rightarrow> bool" where
  "http_request_input i =
     (case ti_read i of
        None \<Rightarrow> False
      | Some (io, message) \<Rightarrow> parse_message_type message = HttpRequest)"

definition http_requests_in :: "thread_input list \<Rightarrow> nat" where
  "http_requests_in inputs = length (filter http_request_input inputs)"

text \<open>
  The tree of \<open>{"type":"http_request","id":7,"method":"GET","path":"/x","query":"a=1",
  "headers":{},"is_https":false,"client_addr":"1.2.3.4"}\<close>, and the connected client
  after \<open>tunnel::initialize\<close>.
\<close>

definition http_request_tree :: ptree where
  "http_request_tree =
     Ptree [] [(''type'', Ptree ''http_request'' []), (''id'', Ptree ''7'' []),
               (''method'', Ptree ''GET'' []), (''path'', Ptree ''/x'' []),
               (''query'', Ptree ''a=1'' []), (''headers'', Ptree [] []),
               (''is_https'', Ptree ''false'' []), (''client_addr'', Ptree ''1.2.3.4'' [])]"

definition http_request_7 :: HttpRequestMessage where
  "http_request_7 =
     \<lparr>hreq_id = 7, hreq_method = ''GET'', hreq_path = ''/x'', hreq_query = Some ''a=1'',
      hreq_headers = [], hreq_body = None, hreq_is_https = False,
      hreq_client_addr = ''1.2.3.4''\<rparr>"

definition tunnel_client :: "NvhttpHandler option \<Rightarrow> RtspHandler option \<Rightarrow> Client" where
  "tunnel_client g g' = tunnel_initialize example_cfg g g' connected_client"

text \<open>An RTSP handler that throws.\<close>

definition throwing_rtsp :: RtspHandler where
  "throwing_rtsp io method uri headers body client_addr = Inl callback_error"



text \<open>
  The tree of \<open>{"type":"rtsp_request","id":9,"method":"OPTIONS","uri":"rtsp://h",
  "headers":{},"client_addr":"1.2.3.4"}\<close>.
\<close>

definition rtsp_request_tree :: ptree where
  "rtsp_request_tree =
     Ptree [] [(''type'', Ptree ''rtsp_request'' []), (''id'', Ptree ''9'' []),
               (''method'', Ptree ''OPTIONS'' []), (''uri'', Ptree ''rtsp://h'' []),
               (''headers'', Ptree [] []), (''client_addr'', Ptree ''1.2.3.4'' [])]"

definition rtsp_request_9 :: RtspRequestMessage where
  "rtsp_request_9 =
     \<lparr>rreq_id = 9, rreq_method = ''OPTIONS'', rreq_uri = ''rtsp://h'', rreq_headers = [],
      rreq_body = None, rreq_client_addr = ''1.2.3.4''\<rparr>"

text \<open>
  A network on which everything succeeds, the input that delivers a frame, and a history:
  \<open>start\<close>, the loop test, \<open>connect\<close>, and a \<open>register_ack\<close> with host id \<open>h1\<close> and the
  HTTP port 10.
\<close>

definition quiet_connect_io :: connect_io where
  "quiet_connect_io = \<lparr>cio_resolve = None, cio_handshake = None, cio_write = None\<rparr>"

definition deliver :: "frame \<Rightarrow> thread_input" where
  "deliver message = \<lparr>ti_connect = quiet_connect_io, ti_read = Some (quiet_frame_io, message)\<rparr>"

definition read_error :: thread_input where
  "read_error = \<lparr>ti_connect = quiet_connect_io, ti_read = None\<rparr>"

definition fresh_world :: world where
  "fresh_world = \<lparr>client = example_client, g_channel_manager = None\<rparr>"

text \<open>The world at the end of that history.\<close>

definition history_world :: world where
  "history_world =
     \<lparr>client = (send_registration None connected_client)
        \<lparr>c_state := Registered, c_assigned_host_id := ''h1'',
         c_assigned_ports :=
           \<lparr>http = 10, https = 11, rtsp = 12, video = 13, audio = 14, control = 15\<rparr>\<rparr>,
      g_channel_manager = Some (initialize ''relay.example.com'' 13 14 15 ChannelManager_new)\<rparr>"

definition register_history :: "event list" where
  "register_history =
     [Start, Thread read_error, Thread read_error,
      Thread (deliver (register_ack_frame ''h1'' ''10''))]"
section \<open>Basic facts about the model\<close>

lemmas eval_json = with_tree_def bind_exn_def get_string_def get_unsigned_def get_child_def
  get_child_optional_def get_optional_string_def extract_unsigned_def isspace_def isdigit_def
  dec_value_def parse_message_type_def message_type_of_string_def

lemma set_state_fields [simp]:
  "c_state (set_state s c) = s"
  "c_assigned_host_id (set_state s c) = c_assigned_host_id c"
  "c_assigned_ports (set_state s c) = c_assigned_ports c"
  "c_written (set_state s c) = c_written c"
  "c_wss (set_state s c) = c_wss c"
  "c_ws (set_state s c) = c_ws c"
  "c_use_ssl (set_state s c) = c_use_ssl c"
  "c_running (set_state s c) = c_running c"
  "c_io_thread (set_state s c) = c_io_thread c"
  "c_io_context (set_state s c) = c_io_context c"
  "c_server_url (set_state s c) = c_server_url c"
  "c_http_handler (set_state s c) = c_http_handler c"
  "c_rtsp_handler (set_state s c) = c_rtsp_handler c"
  "c_udp_channel_handler (set_state s c) = c_udp_channel_handler c"
  by (simp_all add: set_state_def Let_def)

lemma send_message_fields [simp]:
  "c_state (send_message wr msg c) = c_state c"
  "c_assigned_host_id (send_message wr msg c) = c_assigned_host_id c"
  "c_assigned_ports (send_message wr msg c) = c_assigned_ports c"
  "c_wss (send_message wr msg c) = c_wss c"
  "c_ws (send_message wr msg c) = c_ws c"
  "c_use_ssl (send_message wr msg c) = c_use_ssl c"
  "c_running (send_message wr msg c) = c_running c"
  "c_io_thread (send_message wr msg c) = c_io_thread c"
  "c_io_context (send_message wr msg c) = c_io_context c"
  "c_server_url (send_message wr msg c) = c_server_url c"
  by (simp_all add: send_message_def)

lemma send_message_open:
  "stream_open c \<Longrightarrow>
     send_message wr msg c = c\<lparr>c_written := c_written c @ [(msg, wr = None)]\<rparr>"
  by (auto simp add: send_message_def stream_open_def)

lemma disconnect_fields [simp]:
  "c_state (disconnect c) = Disconnected"
  "c_assigned_host_id (disconnect c) = []"
  "c_assigned_ports (disconnect c) = no_ports"
  "c_running (disconnect c) = c_running c"
  "c_io_thread (disconnect c) = c_io_thread c"
  by (simp_all add: disconnect_def)

lemma start_fields [simp]:
  "c_assigned_host_id (start c) = c_assigned_host_id c"
  "c_assigned_ports (start c) = c_assigned_ports c"
  "c_state (start c) = c_state c"
  "c_written (start c) = c_written c"
  by (simp_all add: start_def)

lemma connect_fields [simp]:
  "c_assigned_host_id (snd (connect io c)) = c_assigned_host_id c"
  "c_assigned_ports (snd (connect io c)) = c_assigned_ports c"
  "c_running (snd (connect io c)) = c_running c"
  "c_io_thread (snd (connect io c)) = c_io_thread c"
  "c_state (snd (connect io c)) \<noteq> Registered"
  by (simp_all add: connect_def Let_def send_registration_def split: option.splits)

lemma leave_run_fields [simp]:
  "c_state (client (leave_run w)) = Disconnected"
  "c_assigned_host_id (client (leave_run w)) = []"
  "c_assigned_ports (client (leave_run w)) = no_ports"
  "c_running (client (leave_run w)) = c_running (client w)"
  "c_io_thread (client (leave_run w)) = Some Head"
  "c_written (client (leave_run w)) = c_written (client w)"
  by (simp_all add: leave_run_def disconnect_def)

text \<open>\<open>handle_message\<close> touches neither \<open>running_\<close> nor the thread.\<close>

lemma handle_message_thread:
  assumes "handle_message io message w = Inr w'"
  shows "c_running (client w') = c_running (client w)
         \<and> c_io_thread (client w') = c_io_thread (client w)"
  using assms
  by (cases "parse_message_type message")
     (auto simp add: handle_message_def Let_def bind_exn_def
           split: sum.splits option.splits if_splits prod.splits)

text \<open>The step of the thread, place by place.\<close>

lemma thread_step_idle:
  "c_io_thread (client w) = None \<Longrightarrow> thread_step i w = w"
  "c_io_thread (client w) = Some Finished \<Longrightarrow> thread_step i w = w"
  by (simp_all add: thread_step_def)

lemma thread_step_Head:
  "c_io_thread (client w) = Some Head \<Longrightarrow>
     thread_step i w
     = w\<lparr>client := (client w)
          \<lparr>c_io_thread := Some (if c_running (client w) then Entered else Finished)\<rparr>\<rparr>"
  by (simp add: thread_step_def)

lemma thread_step_Entered:
  "c_io_thread (client w) = Some Entered \<Longrightarrow>
     thread_step i w
     = (if fst (connect (ti_connect i) (client w)) = None
           \<and> (c_state (snd (connect (ti_connect i) (client w))) = Connected
              \<or> c_state (snd (connect (ti_connect i) (client w))) = Registered)
        then w\<lparr>client := (snd (connect (ti_connect i) (client w)))\<lparr>c_io_thread := Some Running\<rparr>\<rparr>
        else leave_run (w\<lparr>client := snd (connect (ti_connect i) (client w))\<rparr>))"
  by (cases "connect (ti_connect i) (client w)") (simp add: thread_step_def)

lemma thread_step_Running:
  "c_io_thread (client w) = Some Running \<Longrightarrow>
     thread_step i w
     = (if c_io_context (client w) = Some True then leave_run w
        else (case ti_read i of
                None \<Rightarrow> leave_run w
              | Some (io, message) \<Rightarrow>
                  (case handle_message io message w of
                     Inl e \<Rightarrow> leave_run w
                   | Inr w' \<Rightarrow>
                       if c_io_context (client w') = Some True \<or> \<not> c_running (client w')
                       then leave_run w' else w')))"
  by (simp add: thread_step_def)

lemma thread_step_running [simp]:
  "c_running (client (thread_step i w)) = c_running (client w)"
proof (cases "c_io_thread (client w)")
  case None
  then show ?thesis by (simp add: thread_step_idle)
next
  case (Some pos)
  show ?thesis
  proof (cases pos)
    case Head
    with Some show ?thesis by (simp add: thread_step_Head)
  next
    case Entered
    with Some show ?thesis by (simp add: thread_step_Entered)
  next
    case Running
    with Some show ?thesis
      by (auto simp add: thread_step_Running handle_message_thread
          split: option.splits prod.splits sum.splits)
  next
    case Finished
    with Some show ?thesis by (simp add: thread_step_idle)
  qed
qed

lemma thread_run_running [simp]:
  "c_running (client (thread_run inputs w)) = c_running (client w)"
  unfolding thread_run_def
  by (induction inputs arbitrary: w) simp_all

lemma thread_run_Cons [simp]:
  "thread_run [] w = w"
  "thread_run (i # inputs) w = thread_run inputs (thread_step i w)"
  by (simp_all add: thread_run_def)

text \<open>When the join returns, the thread has taken some of the offered steps and is at its
  end.\<close>

lemma join_is_run:
  assumes "join during w = Some w'"
  shows "\<exists>n. w' = thread_run (take n during) w
             \<and> (c_io_thread (client w') = None \<or> c_io_thread (client w') = Some Finished)"
  using assms
proof (induction during arbitrary: w)
  case Nil
  then have "w' = thread_run (take 0 []) w
             \<and> (c_io_thread (client w') = None \<or> c_io_thread (client w') = Some Finished)"
    by (auto split: if_splits)
  then show ?case by blast
next
  case (Cons i during)
  show ?case
  proof (cases "c_io_thread (client w) = None \<or> c_io_thread (client w) = Some Finished")
    case True
    with Cons.prems have "w' = thread_run (take 0 (i # during)) w
             \<and> (c_io_thread (client w') = None \<or> c_io_thread (client w') = Some Finished)"
      by auto
    then show ?thesis by blast
  next
    case False
    with Cons.prems have "join during (thread_step i w) = Some w'" by auto
    from Cons.IH [OF this] obtain n where
      n: "w' = thread_run (take n during) (thread_step i w)"
         "c_io_thread (client w') = None \<or> c_io_thread (client w') = Some Finished"
      by blast
    then have "w' = thread_run (take (Suc n) (i # during)) w" by simp
    with n(2) show ?thesis by blast
  qed
qed


lemma running_manager_eval:
  "running_manager
   = \<lparr>cm_io_context = True, cm_channels = Map.empty, cm_running = True,
      cm_relay_host = ''relay.example.com'', cm_relay_video_port = 13,
      cm_relay_audio_port = 14, cm_relay_control_port = 15\<rparr>"
  by (simp add: running_manager_def initialize_def ChannelManager_new_def)

lemma example_url:
  "parse_url ''wss://relay.example.com''
   = Some \<lparr>url_host = ''relay.example.com'', url_port = ''443'', url_path = ''/'',
           url_use_ssl = True\<rparr>"
  by (simp add: parse_url_def scheme_length_def tolower_def host_char_def isdigit_def
      line_terminator_def char_of_eq_iff)

lemma example_registered:
  "run_events register_history fresh_world = Some history_world"
  by (simp add: register_history_def fresh_world_def history_world_def thread_step_def
      start_def example_client_def Client_new_def read_error_def deliver_def
      quiet_connect_io_def connect_def example_url set_state_def send_registration_def
      send_message_def Let_def handle_message_def register_ack_frame_def port_tree_def
      RegisterAckMessage_from_json_def eval_json connected_client_def get_channel_manager_def)

subsection \<open>Evaluating the reply parser\<close>

lemmas eval_reply = skip_token_def extract_int_def getline_def header_loop.simps
  http_header_field_def rtsp_header_field_def split_header_def strip_cr_def stoul_def
  read_body_def bind_exn_def isspace_def isdigit_def dec_value_def tolower_def char_of_eq_iff
  Let_def trim_reason_def crlf_def

lemma quiet_http_io_fields [simp]:
  "sk_connect quiet_http_io = None"
  "sk_write quiet_http_io = None"
  by (simp_all add: quiet_http_io_def)

lemma quiet_rtsp_io_fields [simp]:
  "sk_connect quiet_rtsp_io = None"
  "sk_write quiet_rtsp_io = None"
  by (simp_all add: quiet_rtsp_io_def)

lemma quiet_http_reply: "http_read_reply quiet_http_io = Inr (200, ''text/plain'', ''hi'')"
  by (simp add: http_read_reply_def quiet_http_io_def eval_reply)

lemma quiet_rtsp_reply:
  "rtsp_read_reply quiet_rtsp_io = Inr (200, ''OK'', [(''CSeq'', ''1'')], [])"
  by (simp add: rtsp_read_reply_def quiet_rtsp_io_def eval_reply)

subsection \<open>Decimal text reads back as the number\<close>

lemma dec_value_snoc: "dec_value (xs @ [c]) = 10 * dec_value xs + ((of_char c :: nat) - 48)"
  by (simp add: dec_value_def)

lemma digit_char:
  "n < 10 \<Longrightarrow> isdigit (char_of (48 + n)) \<and> (of_char (char_of (48 + n) :: char) :: nat) = 48 + n"
  by (simp add: isdigit_def)

lemma decimal_digits: "list_all isdigit (decimal n)"
proof (induction n rule: decimal.induct)
  case (1 n)
  show ?case
  proof (cases "n < 10")
    case True
    then show ?thesis by (subst decimal.simps) (simp add: digit_char)
  next
    case False
    with "1" have "list_all isdigit (decimal (n div 10))" by simp
    moreover have "isdigit (char_of (48 + n mod 10))" by (simp add: digit_char)
    ultimately show ?thesis using False by (subst decimal.simps) simp
  qed
qed

lemma decimal_not_Nil: "decimal n \<noteq> []"
  by (subst decimal.simps) simp

lemma dec_value_decimal: "dec_value (decimal n) = n"
proof (induction n rule: decimal.induct)
  case (1 n)
  show ?case
  proof (cases "n < 10")
    case True
    then show ?thesis by (subst decimal.simps) (simp add: dec_value_def digit_char)
  next
    case False
    with "1" have "dec_value (decimal (n div 10)) = n div 10" by simp
    then show ?thesis using False
      by (subst decimal.simps) (simp add: dec_value_snoc digit_char)
  qed
qed

lemma isdigit_not_space: "isdigit c \<Longrightarrow> \<not> isspace c \<and> c \<noteq> CHR ''-'' \<and> c \<noteq> CHR ''+''"
  by (auto simp add: isdigit_def isspace_def)

lemma extract_unsigned_decimal:
  assumes "n < 2 ^ LENGTH('a::len)"
  shows "(extract_unsigned (decimal n) :: 'a word option) = Some (word_of_nat n)"
proof -
  obtain d ds where ds: "decimal n = d # ds"
    using decimal_not_Nil [of n] by (cases "decimal n") auto
  have all: "list_all isdigit (d # ds)"
    using decimal_digits [of n] ds by simp
  then have d: "isdigit d" by simp
  have tw: "takeWhile isdigit ds = ds"
    using all by (simp add: list_all_iff)
  have dw: "dropWhile isdigit ds = []"
    using all by (simp add: list_all_iff)
  have v: "dec_value (d # ds) = n"
    using dec_value_decimal [of n] ds by simp
  show ?thesis
    using isdigit_not_space [OF d] d v assms
    unfolding extract_unsigned_def ds
    by (simp add: Let_def tw dw)
qed

section \<open>The registered state (C1)\<close>














section \<open>Channel setup is idempotent (C2)\<close>

lemma manager_inv_new: "manager_inv cfg ChannelManager_new"
  by (simp add: manager_inv_def ChannelManager_new_def)

lemma handle_channel_setup_existing:
  assumes "manager_inv cfg m" and "cm_channels m (setup_channel setup) = Some ch"
  shows "handle_channel_setup cfg os setup m
         = ((zero_ack setup)\<lparr>ack_relay_port := relay_port_of m (setup_channel setup),
                              ack_local_port := ch_local_port ch\<rparr>, m)"
proof -
  from assms have "cm_running m" and "get_sunshine_port cfg (setup_channel setup) \<noteq> 0"
    by (auto simp add: manager_inv_def)
  with assms(2) show ?thesis
    by (simp add: handle_channel_setup_def zero_ack_def Let_def)
qed

lemma handle_channel_setup_cases:
  assumes "handle_channel_setup cfg os setup m = (ack, m')"
  shows "m' = m
         \<or> (cm_running m \<and> get_sunshine_port cfg (setup_channel setup) \<noteq> 0
            \<and> cm_channels m (setup_channel setup) = None
            \<and> (\<exists>ch. m' = m\<lparr>cm_channels := (cm_channels m)(setup_channel setup \<mapsto> ch)\<rparr>
                   \<and> ack_local_port ack = ch_local_port ch
                   \<and> ack_relay_port ack = relay_port_of m (setup_channel setup)))"
  using assms
  by (auto simp add: handle_channel_setup_def Let_def
           split: if_splits option.splits sum.splits)

lemma relay_port_of_channels [simp]:
  "relay_port_of (m\<lparr>cm_channels := cs\<rparr>) t = relay_port_of m t"
  by (cases t) simp_all

lemma manager_step_inv:
  assumes "manager_inv cfg m"
  shows "manager_inv cfg (manager_step cfg op m)"
proof (cases op)
  case (Initialize h v a c)
  with assms show ?thesis
    by (auto simp add: initialize_def manager_inv_def)
next
  case Shutdown
  then show ?thesis
    by (simp add: shutdown_def manager_inv_def)
next
  case (Setup os su)
  obtain ack m' where h: "handle_channel_setup cfg os su m = (ack, m')"
    by (cases "handle_channel_setup cfg os su m")
  from handle_channel_setup_cases [OF h] assms have "manager_inv cfg m'"
    by (auto simp add: manager_inv_def split: if_splits)
  with Setup h show ?thesis by simp
qed

lemma manager_run_inv: "manager_inv cfg m \<Longrightarrow> manager_inv cfg (manager_run cfg ops m)"
  unfolding manager_run_def
  by (induction ops arbitrary: m) (simp_all add: manager_step_inv)

text \<open>An operation other than \<open>shutdown\<close> leaves an existing record and its relay port alone.\<close>

lemma manager_step_keeps:
  assumes "manager_inv cfg m" and "cm_channels m t = Some ch" and "\<not> is_shutdown op"
  shows "cm_channels (manager_step cfg op m) t = Some ch
         \<and> relay_port_of (manager_step cfg op m) t = relay_port_of m t"
proof (cases op)
  case (Initialize h v a c)
  from assms(1,2) have "cm_running m" by (auto simp add: manager_inv_def)
  with Initialize assms(2) show ?thesis by (simp add: initialize_def)
next
  case Shutdown
  with assms(3) show ?thesis by simp
next
  case (Setup os su)
  obtain ack m' where h: "handle_channel_setup cfg os su m = (ack, m')"
    by (cases "handle_channel_setup cfg os su m")
  from handle_channel_setup_cases [OF h] assms(2)
  have "cm_channels m' t = Some ch \<and> relay_port_of m' t = relay_port_of m t"
    by auto
  with Setup h show ?thesis by simp
qed

lemma manager_run_keeps:
  assumes "manager_inv cfg m" and "cm_channels m t = Some ch" and "\<not> list_ex is_shutdown ops"
  shows "cm_channels (manager_run cfg ops m) t = Some ch
         \<and> relay_port_of (manager_run cfg ops m) t = relay_port_of m t"
  using assms
proof (induction ops arbitrary: m)
  case Nil
  then show ?case by (simp add: manager_run_def)
next
  case (Cons op ops)
  from Cons.prems have ns: "\<not> is_shutdown op" and rest: "\<not> list_ex is_shutdown ops"
    by simp_all
  have keep: "cm_channels (manager_step cfg op m) t = Some ch
              \<and> relay_port_of (manager_step cfg op m) t = relay_port_of m t"
    using manager_step_keeps [OF Cons.prems(1,2) ns] .
  have inv: "manager_inv cfg (manager_step cfg op m)"
    using Cons.prems(1) by (rule manager_step_inv)
  from Cons.IH [OF inv _ rest] keep
  have "cm_channels (manager_run cfg ops (manager_step cfg op m)) t = Some ch
        \<and> relay_port_of (manager_run cfg ops (manager_step cfg op m)) t = relay_port_of m t"
    by simp
  then show ?case by (simp add: manager_run_def)
qed

text \<open>
  C2: take a manager in any state reached from a fresh one, a setup after which a record
  for its channel type exists (it was there, or this setup created it), then any operations
  other than \<open>shutdown\<close>, then a second setup for the same channel type. The second ack has
  the \<open>local_port\<close> and the \<open>relay_port\<close> of the first, and the second setup changes
  nothing in the manager. The records are a map from the channel type, which holds at most
  one record per type; the second setup adds none.
\<close>

theorem channel_setup_idempotent:
  assumes "handle_channel_setup cfg os1 setup1 (manager_run cfg ops0 ChannelManager_new)
           = (ack1, m1)"
      and "cm_channels m1 (setup_channel setup1) \<noteq> None"
      and "\<not> list_ex is_shutdown ops"
      and "setup_channel setup2 = setup_channel setup1"
      and "handle_channel_setup cfg os2 setup2 (manager_run cfg ops m1) = (ack2, m3)"
  shows "ack_local_port ack2 = ack_local_port ack1
         \<and> ack_relay_port ack2 = ack_relay_port ack1
         \<and> m3 = manager_run cfg ops m1"
proof -
  let ?t = "setup_channel setup1"
  let ?m0 = "manager_run cfg ops0 ChannelManager_new"
  have inv0: "manager_inv cfg ?m0"
    using manager_inv_new by (rule manager_run_inv)
  from assms(2) obtain ch where ch: "cm_channels m1 ?t = Some ch" by auto
  have first: "ack_local_port ack1 = ch_local_port ch
               \<and> ack_relay_port ack1 = relay_port_of m1 ?t \<and> manager_inv cfg m1"
  proof (cases "cm_channels ?m0 ?t")
    case (Some ch0)
    from handle_channel_setup_existing [OF inv0 Some, of os1] assms(1)
    have "m1 = ?m0" and "ack_local_port ack1 = ch_local_port ch0"
      and "ack_relay_port ack1 = relay_port_of ?m0 ?t"
      by auto
    with Some ch inv0 show ?thesis by simp
  next
    case None
    from handle_channel_setup_cases [OF assms(1)] None ch
    obtain ch' where m1: "m1 = ?m0\<lparr>cm_channels := (cm_channels ?m0)(?t \<mapsto> ch')\<rparr>"
      and lp: "ack_local_port ack1 = ch_local_port ch'"
      and rp: "ack_relay_port ack1 = relay_port_of ?m0 ?t"
      by auto
    have "manager_inv cfg m1"
      using manager_step_inv [OF inv0, of "Setup os1 setup1"] assms(1) by simp
    with m1 lp rp ch show ?thesis by simp
  qed
  then have inv1: "manager_inv cfg m1" by simp
  have keep: "cm_channels (manager_run cfg ops m1) ?t = Some ch
              \<and> relay_port_of (manager_run cfg ops m1) ?t = relay_port_of m1 ?t"
    using manager_run_keeps [OF inv1 ch assms(3)] .
  have inv2: "manager_inv cfg (manager_run cfg ops m1)"
    using inv1 by (rule manager_run_inv)
  from keep assms(4) have ch2: "cm_channels (manager_run cfg ops m1) (setup_channel setup2) = Some ch"
    by simp
  from handle_channel_setup_existing [OF inv2 ch2, of os2] assms(5) assms(4) keep first
  show ?thesis by auto
qed

theorem channel_setup_idempotent_witness:
  "cm_channels (snd (handle_channel_setup example_cfg quiet_udp_os video_setup
       (manager_run example_cfg [Initialize ''relay.example.com'' 13 14 15] ChannelManager_new)))
     (setup_channel video_setup) \<noteq> None
   \<and> \<not> list_ex is_shutdown [Setup quiet_udp_os audio_setup]
   \<and> ack_local_port (fst (handle_channel_setup example_cfg quiet_udp_os video_setup
       (manager_run example_cfg [Initialize ''relay.example.com'' 13 14 15] ChannelManager_new)))
     = 5000
   \<and> ack_local_port (fst (handle_channel_setup example_cfg other_udp_os video_setup
       (manager_run example_cfg [Setup quiet_udp_os audio_setup]
          (snd (handle_channel_setup example_cfg quiet_udp_os video_setup
             (manager_run example_cfg [Initialize ''relay.example.com'' 13 14 15]
                ChannelManager_new))))))
     = 5000
   \<and> ack_relay_port (fst (handle_channel_setup example_cfg other_udp_os video_setup
       (manager_run example_cfg [Setup quiet_udp_os audio_setup]
          (snd (handle_channel_setup example_cfg quiet_udp_os video_setup
             (manager_run example_cfg [Initialize ''relay.example.com'' 13 14 15]
                ChannelManager_new))))))
     = 13"
proof -
  let ?m0 = "manager_run example_cfg [Initialize ''relay.example.com'' 13 14 15] ChannelManager_new"
  let ?h1 = "handle_channel_setup example_cfg quiet_udp_os video_setup ?m0"
  let ?m2 = "manager_run example_cfg [Setup quiet_udp_os audio_setup] (snd ?h1)"
  let ?h2 = "handle_channel_setup example_cfg other_udp_os video_setup ?m2"
  have m0: "?m0 = running_manager"
    by (simp add: manager_run_def running_manager_def)
  have h1: "?h1 = (fst ?h1, snd ?h1)" by simp
  have h2: "?h2 = (fst ?h2, snd ?h2)" by simp
  have lp: "ack_local_port (fst ?h1) = 5000" and rp: "ack_relay_port (fst ?h1) = 13"
    and ex: "cm_channels (snd ?h1) (setup_channel video_setup) \<noteq> None"
    unfolding m0 running_manager_eval
    by (simp_all add: handle_channel_setup_def Let_def video_setup_def quiet_udp_os_def
        example_cfg_def)
  have ns: "\<not> list_ex is_shutdown [Setup quiet_udp_os audio_setup]" by simp
  from channel_setup_idempotent [OF h1 ex ns refl h2] lp rp ex ns
  show ?thesis by simp
qed

section \<open>Acks with zero ports (C3)\<close>

text \<open>The first half of C3 holds: a manager that is not running answers with zero ports
  and stays as it was. So does a running one when the 16-bit local port is 0.\<close>

lemma channel_setup_not_running:
  "\<not> cm_running m \<Longrightarrow> handle_channel_setup cfg os su m = (zero_ack su, m)"
  "get_sunshine_port cfg (setup_channel su) = 0 \<Longrightarrow>
     handle_channel_setup cfg os su m = (zero_ack su, m)"
  by (simp_all add: handle_channel_setup_def zero_ack_def Let_def)

text \<open>After parsing there is no unknown channel type: every string that is none of the
  three names becomes Video.\<close>

lemma unknown_channel_string_is_video:
  assumes "UdpChannelSetupMessage_from_json (Some tree) = Inr su"
      and "get_string ''channel'' tree = Inr s"
      and "s \<noteq> ''video''" and "s \<noteq> ''audio''" and "s \<noteq> ''control''"
  shows "setup_channel su = Video"
  using assms
  by (auto simp add: UdpChannelSetupMessage_from_json_def with_tree_def bind_exn_def
      channel_type_from_string_def split: sum.splits)

text \<open>
  C3, second half, on the frame
  \<open>{"type":"udp_channel_setup","session_id":1,"channel":"depth","client_addr":"1.2.3.4"}\<close>:
  it is parsed, its channel becoming Video; a running manager answers it with the port its
  new socket was bound to (5000) and the relay's video port (13), not with zeros, and keeps
  a video record; the client writes that ack. \<open>handle_channel_setup\<close> has a branch for an
  unknown channel type, taken when \<open>get_sunshine_port\<close> returns 0, but with this
  configuration \<open>get_sunshine_port\<close> returns 0 for no channel type, and no string is
  parsed to anything but the three types.
\<close>

theorem unknown_channel_string_not_rejected:
  \<open>UdpChannelSetupMessage_from_json (Some (setup_tree ''depth'')) = Inr video_setup
   \<and> cm_running running_manager
   \<and> cm_channels running_manager Video = None
   \<and> ack_local_port (fst (handle_channel_setup example_cfg quiet_udp_os video_setup
        running_manager)) = 5000
   \<and> ack_relay_port (fst (handle_channel_setup example_cfg quiet_udp_os video_setup
        running_manager)) = 13
   \<and> cm_channels (snd (handle_channel_setup example_cfg quiet_udp_os video_setup
        running_manager)) Video \<noteq> None
   \<and> handle_channel_setup example_cfg quiet_udp_os video_setup running_manager
       \<noteq> (zero_ack video_setup, running_manager)
   \<and> (case handle_message quiet_frame_io (Some (setup_tree ''depth''))
              \<lparr>client = tunnel_client None None, g_channel_manager = Some running_manager\<rparr> of
         Inl e \<Rightarrow> False
       | Inr w' \<Rightarrow>
           c_written (client w')
           = [(''{"type":"udp_channel_ack","session_id":1,"channel":"video","relay_port":13,"local_port":5000}'', True)])
   \<and> (\<forall>t. get_sunshine_port example_cfg t \<noteq> 0)
   \<and> (\<forall>s. channel_type_from_string s \<in> {Video, Audio, Control})\<close>
proof (intro conjI allI)
  show j: "UdpChannelSetupMessage_from_json (Some (setup_tree ''depth'')) = Inr video_setup"
    by (simp add: setup_tree_def UdpChannelSetupMessage_from_json_def eval_json
        channel_type_from_string_def video_setup_def)
  show "cm_running running_manager" "cm_channels running_manager Video = None"
    by (simp_all add: running_manager_eval)
  have h: "handle_channel_setup example_cfg quiet_udp_os video_setup running_manager
           = (\<lparr>ack_session_id = 1, ack_channel = Video, ack_relay_port = 13,
               ack_local_port = 5000\<rparr>,
              running_manager\<lparr>cm_channels := [Video \<mapsto>
                \<lparr>ch_relay_endpoint = (''203.0.113.7'', 13),
                 ch_local_endpoint = (''127.0.0.1'', 47998),
                 ch_local_port = 5000, ch_running = True\<rparr>]\<rparr>)"
    by (simp add: handle_channel_setup_def Let_def running_manager_eval quiet_udp_os_def
        example_cfg_def video_setup_def)
  show "ack_local_port (fst (handle_channel_setup example_cfg quiet_udp_os video_setup
        running_manager)) = 5000"
    and "ack_relay_port (fst (handle_channel_setup example_cfg quiet_udp_os video_setup
        running_manager)) = 13"
    and "cm_channels (snd (handle_channel_setup example_cfg quiet_udp_os video_setup
        running_manager)) Video \<noteq> None"
    and "handle_channel_setup example_cfg quiet_udp_os video_setup running_manager
       \<noteq> (zero_ack video_setup, running_manager)"
    by (simp_all add: h zero_ack_def)
  have ty: "parse_message_type (Some (setup_tree ''depth'')) = UdpChannelSetup"
    by (simp add: setup_tree_def eval_json)
  have d1: "decimal (Suc 0) = ''1''"
    by (subst decimal.simps) (simp add: char_of_eq_iff)
  have d: "decimal 13 = ''13''" "decimal 5000 = ''5000''"
    by (simp_all add: decimal.simps char_of_eq_iff)
  show \<open>case handle_message quiet_frame_io (Some (setup_tree ''depth''))
              \<lparr>client = tunnel_client None None, g_channel_manager = Some running_manager\<rparr> of
         Inl e \<Rightarrow> False
       | Inr w' \<Rightarrow>
           c_written (client w')
           = [(''{"type":"udp_channel_ack","session_id":1,"channel":"video","relay_port":13,"local_port":5000}'', True)]\<close>
    by (simp add: handle_message_def Let_def ty j bind_exn_def tunnel_client_def
        tunnel_initialize_def udp_handle_channel_setup_def get_channel_manager_def
        quiet_frame_io_def h send_message_def connected_client_def example_client_def
        Client_new_def UdpChannelAckMessage_to_json_def d d1)
next
  fix t
  show "get_sunshine_port example_cfg t \<noteq> 0"
    by (cases t) (simp_all add: example_cfg_def)
next
  fix s
  show "channel_type_from_string s \<in> {Video, Audio, Control}"
    by (simp add: channel_type_from_string_def)
qed

section \<open>The forwarded HTTP request (C4)\<close>

lemma forward_headers_filter:
  "forward_headers hs = concat (map spec_header_line (filter (\<lambda>kv. \<not> dropped_header (fst kv)) hs))"
  by (induction hs rule: forward_headers.induct)
     (simp_all add: Let_def spec_header_line_def dropped_header_def)

lemma http_request_text_spec:
  "http_request_text local_port method path query headers body client_addr
   = spec_http_request local_port method path query headers body client_addr"
  by (simp add: http_request_text_def spec_http_request_def forward_headers_filter Let_def)

text \<open>
  C4: whenever the forwarder gets as far as writing (resolving and connecting did not
  throw), the bytes it hands to \<open>asio::write\<close> are the request of the specification: the
  request line with the query after a \<open>?\<close> when there is one, the Host header, every
  forwarded header whose lower-cased name is none of \<open>host\<close>, \<open>connection\<close>,
  \<open>transfer-encoding\<close>, X-Forwarded-For and X-Starbeam-Client with the client address,
  Content-Length with the body size exactly when the body is not empty, Connection: close,
  a blank line and the body.
\<close>

theorem http_request_as_specified:
  assumes "sk_connect io = None"
  shows "fst (http_try cfg io method path query headers body client_addr is_https)
         = Some (spec_http_request (http_local_port cfg is_https)
                   method path query headers body client_addr)"
  using assms
  by (simp add: http_try_def http_request_text_spec Let_def split: option.splits)

theorem http_request_as_specified_witness:
  "sk_connect quiet_http_io = None
   \<and> fst (http_try example_cfg quiet_http_io ''GET'' ''/x'' ''a=1''
            [(''Accept'', ''*/*''), (''HOST'', ''relay.example''), (''connection'', ''keep-alive'')]
            [] ''1.2.3.4'' False)
     = Some (''GET /x?a=1 HTTP/1.1'' @ crlf
             @ ''Host: 127.0.0.1:47989'' @ crlf
             @ ''Accept: */*'' @ crlf
             @ ''X-Forwarded-For: 1.2.3.4'' @ crlf
             @ ''X-Starbeam-Client: 1.2.3.4'' @ crlf
             @ ''Connection: close'' @ crlf
             @ crlf)"
proof -
  have c: "sk_connect quiet_http_io = None"
    by simp
  have p: "decimal (unat (http_local_port example_cfg False)) = ''47989''"
    by (simp add: http_local_port_def example_cfg_def decimal.simps char_of_eq_iff)
  have d: "dropped_header ''HOST'' \<and> dropped_header ''connection'' \<and> \<not> dropped_header ''Accept''"
    by (simp add: dropped_header_def tolower_def char_of_eq_iff)
  from http_request_as_specified [OF c, of example_cfg "''GET''" "''/x''" "''a=1''"
      "[(''Accept'', ''*/*''), (''HOST'', ''relay.example''), (''connection'', ''keep-alive'')]"
      "[]" "''1.2.3.4''" False] c p d
  show ?thesis
    by (simp add: spec_http_request_def spec_header_line_def)
qed

section \<open>Exceptions in the forwarder (C5)\<close>

lemma http_try_throws:
  "snd (http_try cfg io method path query headers body client_addr is_https) = Inl e
   \<longleftrightarrow> (sk_connect io = Some e
        \<or> (sk_connect io = None \<and> sk_write io = Some e)
        \<or> (sk_connect io = None \<and> sk_write io = None \<and> http_read_reply io = Inl e))"
  by (auto simp add: http_try_def Let_def split: option.splits)

lemma rtsp_try_throws:
  "snd (rtsp_try io method uri headers body client_addr) = Inl e
   \<longleftrightarrow> (sk_connect io = Some e
        \<or> (sk_connect io = None \<and> sk_write io = Some e)
        \<or> (sk_connect io = None \<and> sk_write io = None \<and> rtsp_read_reply io = Inl e))"
  by (auto simp add: rtsp_try_def Let_def split: option.splits)

text \<open>What reading the reply can throw: the two exceptions of \<open>std::stoul\<close> on a
  Content-Length value, the failed allocation of the body buffer, and what \<open>close\<close> throws.\<close>

lemma stoul_throws: "stoul v = Inl e \<Longrightarrow> e = invalid_argument \<or> e = out_of_range"
  by (auto simp add: stoul_def Let_def split: if_splits)

lemma header_loop_throws:
  assumes "header_loop field s acc = Inl e"
  shows "\<exists>line acc'. field line acc' = Inl e"
  using assms
proof (induction field s acc rule: header_loop.induct)
  case (1 field s acc)
  from "1.prems" show ?case
    by (subst (asm) header_loop.simps)
       (auto split: option.splits if_splits sum.splits dest: "1.IH")
qed

lemma reply_throws:
  "http_read_reply io = Inl e \<Longrightarrow>
     e = invalid_argument \<or> e = out_of_range \<or> e = bad_alloc \<or> sk_close io = Some e"
  "rtsp_read_reply io = Inl e \<Longrightarrow>
     e = invalid_argument \<or> e = out_of_range \<or> e = bad_alloc \<or> sk_close io = Some e"
  by (auto simp add: http_read_reply_def rtsp_read_reply_def Let_def bind_exn_def
        read_body_def http_header_field_def rtsp_header_field_def
      split: sum.splits option.splits if_splits prod.splits
      dest!: header_loop_throws stoul_throws)

lemma bad_length_rtsp_reply: "rtsp_read_reply bad_length_rtsp_io = Inl invalid_argument"
  by (simp add: rtsp_read_reply_def bad_length_rtsp_io_def quiet_rtsp_io_def eval_reply)

text \<open>
  C5: whenever the \<open>try\<close> block of the HTTP forwarder ends in an exception (thrown while
  resolving or connecting, while writing the request, or while reading and parsing the
  reply), \<open>handle_http_request\<close> returns exactly (500, "text/plain", "Internal Server
  Error"); in the same cases \<open>handle_rtsp_request\<close> returns exactly (500, "Internal
  Server Error", no headers, empty body).
\<close>

theorem forwarder_exception_gives_500:
  "((sk_connect io = Some e
      \<or> (sk_connect io = None \<and> sk_write io = Some e)
      \<or> (sk_connect io = None \<and> sk_write io = None \<and> http_read_reply io = Inl e))
     \<longrightarrow> snd (http_try cfg io method path query headers body client_addr is_https) = Inl e
         \<and> handle_http_request cfg io method path query headers body client_addr is_https
            = (500, ''text/plain'', ''Internal Server Error''))
   \<and> ((sk_connect rio = Some e'
      \<or> (sk_connect rio = None \<and> sk_write rio = Some e')
      \<or> (sk_connect rio = None \<and> sk_write rio = None \<and> rtsp_read_reply rio = Inl e'))
     \<longrightarrow> snd (rtsp_try rio rmethod uri rheaders rbody rclient_addr) = Inl e'
         \<and> handle_rtsp_request rio rmethod uri rheaders rbody rclient_addr
            = (500, ''Internal Server Error'', [], []))"
proof (intro conjI impI)
  assume a: "sk_connect io = Some e
      \<or> (sk_connect io = None \<and> sk_write io = Some e)
      \<or> (sk_connect io = None \<and> sk_write io = None \<and> http_read_reply io = Inl e)"
  then show t: "snd (http_try cfg io method path query headers body client_addr is_https) = Inl e"
    by (simp add: http_try_throws)
  then show "handle_http_request cfg io method path query headers body client_addr is_https
            = (500, ''text/plain'', ''Internal Server Error'')"
    by (simp add: handle_http_request_def)
next
  assume a: "sk_connect rio = Some e'
      \<or> (sk_connect rio = None \<and> sk_write rio = Some e')
      \<or> (sk_connect rio = None \<and> sk_write rio = None \<and> rtsp_read_reply rio = Inl e')"
  then show t: "snd (rtsp_try rio rmethod uri rheaders rbody rclient_addr) = Inl e'"
    by (simp add: rtsp_try_throws)
  then show "handle_rtsp_request rio rmethod uri rheaders rbody rclient_addr
            = (500, ''Internal Server Error'', [], [])"
    by (simp add: handle_rtsp_request_def)
qed

theorem forwarder_exception_gives_500_witness:
  "sk_connect refused_http_io = Some system_error
   \<and> handle_http_request example_cfg refused_http_io ''GET'' ''/x'' ''a=1'' [] [] ''1.2.3.4'' False
       = (500, ''text/plain'', ''Internal Server Error'')
   \<and> sk_connect bad_length_rtsp_io = None \<and> sk_write bad_length_rtsp_io = None
   \<and> rtsp_read_reply bad_length_rtsp_io = Inl invalid_argument
   \<and> handle_rtsp_request bad_length_rtsp_io ''OPTIONS'' ''rtsp://h'' [] [] ''1.2.3.4''
       = (500, ''Internal Server Error'', [], [])"
proof -
  have a: "sk_connect refused_http_io = Some system_error"
    by (simp add: refused_http_io_def)
  have b: "sk_connect bad_length_rtsp_io = None \<and> sk_write bad_length_rtsp_io = None
           \<and> rtsp_read_reply bad_length_rtsp_io = Inl invalid_argument"
    by (simp add: bad_length_rtsp_reply) (simp add: bad_length_rtsp_io_def quiet_rtsp_io_def)
  note t = forwarder_exception_gives_500 [of refused_http_io system_error example_cfg
      "''GET''" "''/x''" "''a=1''" "[]" "[]" "''1.2.3.4''" False
      bad_length_rtsp_io invalid_argument "''OPTIONS''" "''rtsp://h''" "[]" "[]" "''1.2.3.4''"]
  have 1: "handle_http_request example_cfg refused_http_io ''GET'' ''/x'' ''a=1'' [] []
             ''1.2.3.4'' False = (500, ''text/plain'', ''Internal Server Error'')"
    using t a by blast
  have 2: "handle_rtsp_request bad_length_rtsp_io ''OPTIONS'' ''rtsp://h'' [] [] ''1.2.3.4''
       = (500, ''Internal Server Error'', [], [])"
    using t b by blast
  from a b 1 2 show ?thesis by (intro conjI) simp_all
qed

section \<open>Ping and pong (C6)\<close>

text \<open>
  C6: a frame of type \<open>ping\<close> whose \<open>ts\<close> reads as the number T makes \<open>handle_message\<close>
  return normally having handed exactly one frame to the WebSocket write, the text
  \<open>{"type":"pong","ts":T}\<close> with T in decimal, which reads back as T; nothing else of the
  client or of the UDP manager changes. The pair's second component records whether that
  write threw. A stream is open whenever a frame is handled, \<open>connect\<close> having succeeded.
\<close>

theorem ping_echo:
  assumes "get_string ''type'' tree = Inr ''ping''"
      and "get_unsigned ''ts'' tree = Inr T"
      and "stream_open (client w)"
  shows \<open>handle_message io (Some tree) w
         = Inr (w\<lparr>client := (client w)\<lparr>c_written := c_written (client w)
                  @ [(''{"type":"pong","ts":'' @ decimal (unat T) @ ''}'', fio_write io = None)]\<rparr>\<rparr>)
         \<and> (extract_unsigned (decimal (unat T)) :: 64 word option) = Some T\<close>
proof -
  have ty: "parse_message_type (Some tree) = Ping"
    using assms(1) by (simp add: parse_message_type_def with_tree_def message_type_of_string_def)
  have pj: "PingMessage_from_json (Some tree) = Inr \<lparr>ping_ts = T\<rparr>"
    using assms(2) by (simp add: PingMessage_from_json_def with_tree_def bind_exn_def)
  have "unat T < 2 ^ LENGTH(64)"
    using unsigned_less [of T] by simp
  then have rt: "(extract_unsigned (decimal (unat T)) :: 64 word option) = Some T"
    by (simp add: extract_unsigned_decimal)
  show ?thesis
    using ty pj rt send_message_open [OF assms(3)]
    by (simp add: handle_message_def Let_def bind_exn_def PongMessage_to_json_def)
qed

theorem ping_echo_witness:
  \<open>get_string ''type'' ping_tree = Inr ''ping''
   \<and> get_unsigned ''ts'' ping_tree = Inr (42 :: 64 word)
   \<and> stream_open (client connected_world)
   \<and> handle_message quiet_frame_io (Some ping_tree) connected_world
       = Inr (connected_world\<lparr>client := connected_client\<lparr>c_written :=
                [(''{"type":"pong","ts":42}'', True)]\<rparr>\<rparr>)\<close>
proof -
  have a: "get_string ''type'' ping_tree = Inr ''ping''"
    by (simp add: ping_tree_def eval_json)
  have b: "get_unsigned ''ts'' ping_tree = Inr (42 :: 64 word)"
    by (simp add: ping_tree_def eval_json)
  have c: "stream_open (client connected_world)"
    by (simp add: stream_open_def connected_world_def connected_client_def)
  have d: "decimal 42 = ''42''"
    by (simp add: decimal.simps char_of_eq_iff)
  show ?thesis
    using ping_echo [OF a b c, of quiet_frame_io] a b c d
    by (simp add: connected_world_def connected_client_def example_client_def Client_new_def
        quiet_frame_io_def)
qed

section \<open>Responses carry the id of their request (C7)\<close>

lemma tunnel_http_id: "hresp_id (tunnel_handle_http_request g io req) = hreq_id req"
  by (simp add: tunnel_handle_http_request_def split: option.splits sum.splits prod.splits)

lemma tunnel_rtsp_id: "rresp_id (tunnel_handle_rtsp_request g io req) = rreq_id req"
  by (simp add: tunnel_handle_rtsp_request_def split: option.splits sum.splits prod.splits)

lemma is_http_response_http: "is_http_response (HttpResponseMessage_to_json r)"
  by (simp add: is_http_response_def HttpResponseMessage_to_json_def)

lemma is_http_response_rtsp: "\<not> is_http_response (RtspResponseMessage_to_json r)"
  by (simp add: is_http_response_def RtspResponseMessage_to_json_def)

lemma is_http_response_ack: "\<not> is_http_response (UdpChannelAckMessage_to_json a)"
  by (simp add: is_http_response_def UdpChannelAckMessage_to_json_def)

lemma is_http_response_pong: "\<not> is_http_response (PongMessage_to_json p)"
  by (simp add: is_http_response_def PongMessage_to_json_def)

lemma is_http_response_register: "\<not> is_http_response (RegisterMessage_to_json r)"
  by (simp add: is_http_response_def RegisterMessage_to_json_def)

lemma send_message_count_http:
  "http_responses_written (send_message wr (HttpResponseMessage_to_json r) c)
   \<le> Suc (http_responses_written c)"
  by (simp add: send_message_def http_responses_written_def)

lemma send_message_count_other:
  "\<not> is_http_response msg \<Longrightarrow>
     http_responses_written (send_message wr msg c) = http_responses_written c"
  by (simp add: send_message_def http_responses_written_def)

lemma handle_message_count:
  assumes "handle_message io message w = Inr w'"
  shows "http_responses_written (client w')
         \<le> http_responses_written (client w)
            + (if parse_message_type message = HttpRequest then 1 else 0)"
proof (cases "parse_message_type message")
  case HttpRequest
  with assms show ?thesis
    by (auto simp add: handle_message_def Let_def bind_exn_def send_message_count_http
        split: option.splits sum.splits)
next
  case RtspRequest
  with assms show ?thesis
    by (auto simp add: handle_message_def Let_def bind_exn_def send_message_count_other
        is_http_response_rtsp
        split: option.splits sum.splits)
next
  case UdpChannelSetup
  with assms show ?thesis
    by (auto simp add: handle_message_def Let_def bind_exn_def send_message_count_other
        is_http_response_ack
        split: option.splits sum.splits prod.splits)
next
  case Ping
  with assms show ?thesis
    by (auto simp add: handle_message_def Let_def bind_exn_def send_message_count_other
        is_http_response_pong
        split: option.splits sum.splits)
next
  case RegisterAck
  with assms show ?thesis
    by (auto simp add: handle_message_def Let_def bind_exn_def http_responses_written_def
        split: option.splits sum.splits)
next
  case RegisterError
  with assms show ?thesis
    by (auto simp add: handle_message_def Let_def bind_exn_def http_responses_written_def
        split: option.splits sum.splits)
next
  case SessionStart
  with assms show ?thesis
    by (auto simp add: handle_message_def Let_def bind_exn_def http_responses_written_def
        split: if_splits sum.splits)
next
  case SessionEnd
  with assms show ?thesis
    by (auto simp add: handle_message_def Let_def bind_exn_def http_responses_written_def
        split: if_splits sum.splits)
qed (use assms in \<open>auto simp add: handle_message_def Let_def bind_exn_def split: sum.splits\<close>)

lemma connect_count:
  "http_responses_written (snd (connect io c)) = http_responses_written c"
proof -
  have s: "http_responses_written (set_state st c') = http_responses_written c'" for st c'
    by (simp add: http_responses_written_def)
  have u: "http_responses_written (c'\<lparr>c_use_ssl := x, c_io_context := y\<rparr>)
           = http_responses_written c'" for c' x y
    by (simp add: http_responses_written_def)
  have v: "http_responses_written (c'\<lparr>c_wss := x\<rparr>) = http_responses_written c'"
          "http_responses_written (c'\<lparr>c_ws := x\<rparr>) = http_responses_written c'" for c' x
    by (simp_all add: http_responses_written_def)
  show ?thesis
    by (simp add: connect_def Let_def send_registration_def send_message_count_other
        is_http_response_register s u v split: option.splits)
qed

lemma leave_run_count:
  "http_responses_written (client (leave_run w)) = http_responses_written (client w)"
  by (simp add: http_responses_written_def)

lemma thread_step_count:
  "http_responses_written (client (thread_step i w))
   \<le> http_responses_written (client w) + (if http_request_input i then 1 else 0)"
proof (cases "c_io_thread (client w)")
  case None
  then show ?thesis by (simp add: thread_step_idle)
next
  case (Some pos)
  show ?thesis
  proof (cases pos)
    case Head
    with Some show ?thesis
      by (simp add: thread_step_Head http_responses_written_def)
  next
    case Entered
    have "http_responses_written
            ((snd (connect (ti_connect i) (client w)))\<lparr>c_io_thread := Some Running\<rparr>)
          = http_responses_written (snd (connect (ti_connect i) (client w)))"
      by (simp add: http_responses_written_def)
    with Some Entered show ?thesis
      by (simp add: thread_step_Entered leave_run_count connect_count)
  next
    case Running
    show ?thesis
    proof (cases "ti_read i")
      case None
      with Some Running show ?thesis
        by (simp add: thread_step_Running leave_run_count)
    next
      case (Some f)
      obtain io message where f: "f = (io, message)" by (cases f)
      have hi: "http_request_input i = (parse_message_type message = HttpRequest)"
        using Some f by (simp add: http_request_input_def)
      show ?thesis
      proof (cases "handle_message io message w")
        case (Inl e)
        with \<open>c_io_thread (client w) = Some pos\<close> Running Some f show ?thesis
          by (simp add: thread_step_Running leave_run_count)
      next
        case (Inr w1)
        from handle_message_count [OF Inr]
        have "http_responses_written (client w1)
              \<le> http_responses_written (client w) + (if http_request_input i then 1 else 0)"
          by (simp add: hi)
        with \<open>c_io_thread (client w) = Some pos\<close> Running Some f Inr show ?thesis
          by (auto simp add: thread_step_Running leave_run_count split: if_splits)
      qed
    qed
  next
    case Finished
    with Some show ?thesis by (simp add: thread_step_idle)
  qed
qed

lemma thread_run_count:
  "http_responses_written (client (thread_run inputs w))
   \<le> http_responses_written (client w) + http_requests_in inputs"
proof (induction inputs arbitrary: w)
  case Nil
  show ?case by (simp add: http_requests_in_def)
next
  case (Cons i inputs)
  have "http_responses_written (client (thread_run inputs (thread_step i w)))
        \<le> http_responses_written (client (thread_step i w)) + http_requests_in inputs"
    by (rule Cons.IH)
  moreover have "http_requests_in (i # inputs)
                 = (if http_request_input i then 1 else 0) + http_requests_in inputs"
    by (simp add: http_requests_in_def)
  ultimately show ?case
    using thread_step_count [of i w] by simp
qed

lemma http_request_answered:
  assumes "parse_message_type message = HttpRequest"
      and "HttpRequestMessage_from_json message = Inr req"
      and "c_http_handler (client w) = Some (\<lambda>hio r. Inr (tunnel_handle_http_request g hio r))"
      and "stream_open (client w)"
  shows "handle_message io message w
         = Inr (w\<lparr>client := (client w)\<lparr>c_written := c_written (client w)
                  @ [(HttpResponseMessage_to_json
                        (tunnel_handle_http_request g (fio_http io) req),
                      fio_write io = None)]\<rparr>\<rparr>)"
  using assms(1-3) send_message_open [OF assms(4)]
  by (simp add: handle_message_def Let_def bind_exn_def)

lemma rtsp_request_answered:
  assumes "parse_message_type message = RtspRequest"
      and "RtspRequestMessage_from_json message = Inr req"
      and "c_rtsp_handler (client w) = Some (\<lambda>rio r. Inr (tunnel_handle_rtsp_request g rio r))"
      and "stream_open (client w)"
  shows "handle_message io message w
         = Inr (w\<lparr>client := (client w)\<lparr>c_written := c_written (client w)
                  @ [(RtspResponseMessage_to_json
                        (tunnel_handle_rtsp_request g (fio_rtsp io) req),
                      fio_write io = None)]\<rparr>\<rparr>)"
  using assms(1-3) send_message_open [OF assms(4)]
  by (simp add: handle_message_def Let_def bind_exn_def)

text \<open>The frame written for a request, as text: its \<open>id\<close> is the number read from the
  request's \<open>id\<close>.\<close>

lemma http_wire:
  \<open>get_string ''type'' tree = Inr ''http_request''
     \<and> get_unsigned ''id'' tree = Inr I
     \<and> HttpRequestMessage_from_json (Some tree) = Inr req
     \<and> c_http_handler (client w) = Some (\<lambda>hio r. Inr (tunnel_handle_http_request g hio r))
     \<and> stream_open (client w)
     \<and> resp = tunnel_handle_http_request g (fio_http io) req
   \<longrightarrow> handle_message io (Some tree) w
        = Inr (w\<lparr>client := (client w)\<lparr>c_written := c_written (client w) @
             [(''{"type":"http_response","id":'' @ decimal (unat I)
                @ '',"status":'' @ decimal (unat (hresp_status resp))
                @ '',"headers":{'' @ headers_json True (hresp_headers resp) @ ''}''
                @ (case hresp_body resp of None \<Rightarrow> [] | Some b \<Rightarrow> '',"body":'' @ quoted b)
                @ ''}'', fio_write io = None)]\<rparr>\<rparr>)
      \<and> (extract_unsigned (decimal (unat I)) :: 64 word option) = Some I
      \<and> (g = None \<longrightarrow> hresp_status resp = 500)
      \<and> (g = Some h
           \<and> h (fio_http io) (hreq_method req) (hreq_path req) (value_or (hreq_query req) [])
                (hreq_headers req) (value_or (hreq_body req) []) (hreq_client_addr req)
                (hreq_is_https req) = Inl e
          \<longrightarrow> hresp_status resp = 500)\<close>
proof (rule impI, elim conjE)
  assume t: "get_string ''type'' tree = Inr ''http_request''"
    and i: "get_unsigned ''id'' tree = Inr I"
    and j: "HttpRequestMessage_from_json (Some tree) = Inr req"
    and h: "c_http_handler (client w) = Some (\<lambda>hio r. Inr (tunnel_handle_http_request g hio r))"
    and so: "stream_open (client w)"
    and r: "resp = tunnel_handle_http_request g (fio_http io) req"
  have ty: "parse_message_type (Some tree) = HttpRequest"
    using t by (simp add: parse_message_type_def with_tree_def message_type_of_string_def)
  have "hreq_id req = I"
    using i j
    by (auto simp add: HttpRequestMessage_from_json_def with_tree_def bind_exn_def
        split: sum.splits)
  then have id: "hresp_id resp = I"
    by (simp add: r tunnel_http_id)
  have "unat I < 2 ^ LENGTH(64)"
    using unsigned_less [of I] by simp
  then have rt: "(extract_unsigned (decimal (unat I)) :: 64 word option) = Some I"
    by (simp add: extract_unsigned_decimal)
  have w: \<open>handle_message io (Some tree) w
        = Inr (w\<lparr>client := (client w)\<lparr>c_written := c_written (client w) @
             [(''{"type":"http_response","id":'' @ decimal (unat I)
                @ '',"status":'' @ decimal (unat (hresp_status resp))
                @ '',"headers":{'' @ headers_json True (hresp_headers resp) @ ''}''
                @ (case hresp_body resp of None \<Rightarrow> [] | Some b \<Rightarrow> '',"body":'' @ quoted b)
                @ ''}'', fio_write io = None)]\<rparr>\<rparr>)\<close>
    using http_request_answered [OF ty j h so, of io] id
    by (simp add: HttpResponseMessage_to_json_def r [symmetric])
  have n: "g = None \<longrightarrow> hresp_status resp = 500"
    by (simp add: r tunnel_handle_http_request_def)
  have th: "g = Some h
           \<and> h (fio_http io) (hreq_method req) (hreq_path req) (value_or (hreq_query req) [])
                (hreq_headers req) (value_or (hreq_body req) []) (hreq_client_addr req)
                (hreq_is_https req) = Inl e
          \<longrightarrow> hresp_status resp = 500" for h e
    by (simp add: r tunnel_handle_http_request_def)
  from w rt n th show \<open>handle_message io (Some tree) w
        = Inr (w\<lparr>client := (client w)\<lparr>c_written := c_written (client w) @
             [(''{"type":"http_response","id":'' @ decimal (unat I)
                @ '',"status":'' @ decimal (unat (hresp_status resp))
                @ '',"headers":{'' @ headers_json True (hresp_headers resp) @ ''}''
                @ (case hresp_body resp of None \<Rightarrow> [] | Some b \<Rightarrow> '',"body":'' @ quoted b)
                @ ''}'', fio_write io = None)]\<rparr>\<rparr>)
      \<and> (extract_unsigned (decimal (unat I)) :: 64 word option) = Some I
      \<and> (g = None \<longrightarrow> hresp_status resp = 500)
      \<and> (g = Some h
           \<and> h (fio_http io) (hreq_method req) (hreq_path req) (value_or (hreq_query req) [])
                (hreq_headers req) (value_or (hreq_body req) []) (hreq_client_addr req)
                (hreq_is_https req) = Inl e
          \<longrightarrow> hresp_status resp = 500)\<close>
    by (intro conjI)
qed

lemma rtsp_wire:
  \<open>get_string ''type'' tree = Inr ''rtsp_request''
     \<and> get_unsigned ''id'' tree = Inr I
     \<and> RtspRequestMessage_from_json (Some tree) = Inr req
     \<and> c_rtsp_handler (client w) = Some (\<lambda>rio r. Inr (tunnel_handle_rtsp_request g rio r))
     \<and> stream_open (client w)
     \<and> resp = tunnel_handle_rtsp_request g (fio_rtsp io) req
   \<longrightarrow> handle_message io (Some tree) w
        = Inr (w\<lparr>client := (client w)\<lparr>c_written := c_written (client w) @
             [(''{"type":"rtsp_response","id":'' @ decimal (unat I)
                @ '',"status":'' @ decimal (unat (rresp_status resp))
                @ '',"reason":'' @ quoted (rresp_reason resp)
                @ '',"headers":{'' @ headers_json True (rresp_headers resp) @ ''}''
                @ (case rresp_body resp of None \<Rightarrow> [] | Some b \<Rightarrow> '',"body":'' @ quoted b)
                @ ''}'', fio_write io = None)]\<rparr>\<rparr>)
      \<and> (extract_unsigned (decimal (unat I)) :: 64 word option) = Some I
      \<and> (g = None \<longrightarrow> rresp_status resp = 500)
      \<and> (g = Some h
           \<and> h (fio_rtsp io) (rreq_method req) (rreq_uri req) (rreq_headers req)
                (value_or (rreq_body req) []) (rreq_client_addr req) = Inl e
          \<longrightarrow> rresp_status resp = 500)\<close>
proof (rule impI, elim conjE)
  assume t: "get_string ''type'' tree = Inr ''rtsp_request''"
    and i: "get_unsigned ''id'' tree = Inr I"
    and j: "RtspRequestMessage_from_json (Some tree) = Inr req"
    and h: "c_rtsp_handler (client w) = Some (\<lambda>rio r. Inr (tunnel_handle_rtsp_request g rio r))"
    and so: "stream_open (client w)"
    and r: "resp = tunnel_handle_rtsp_request g (fio_rtsp io) req"
  have ty: "parse_message_type (Some tree) = RtspRequest"
    using t by (simp add: parse_message_type_def with_tree_def message_type_of_string_def)
  have "rreq_id req = I"
    using i j
    by (auto simp add: RtspRequestMessage_from_json_def with_tree_def bind_exn_def
        split: sum.splits)
  then have id: "rresp_id resp = I"
    by (simp add: r tunnel_rtsp_id)
  have "unat I < 2 ^ LENGTH(64)"
    using unsigned_less [of I] by simp
  then have rt: "(extract_unsigned (decimal (unat I)) :: 64 word option) = Some I"
    by (simp add: extract_unsigned_decimal)
  have w: \<open>handle_message io (Some tree) w
        = Inr (w\<lparr>client := (client w)\<lparr>c_written := c_written (client w) @
             [(''{"type":"rtsp_response","id":'' @ decimal (unat I)
                @ '',"status":'' @ decimal (unat (rresp_status resp))
                @ '',"reason":'' @ quoted (rresp_reason resp)
                @ '',"headers":{'' @ headers_json True (rresp_headers resp) @ ''}''
                @ (case rresp_body resp of None \<Rightarrow> [] | Some b \<Rightarrow> '',"body":'' @ quoted b)
                @ ''}'', fio_write io = None)]\<rparr>\<rparr>)\<close>
    using rtsp_request_answered [OF ty j h so, of io] id
    by (simp add: RtspResponseMessage_to_json_def r [symmetric])
  have n: "g = None \<longrightarrow> rresp_status resp = 500"
    by (simp add: r tunnel_handle_rtsp_request_def)
  have th: "g = Some h
           \<and> h (fio_rtsp io) (rreq_method req) (rreq_uri req) (rreq_headers req)
                (value_or (rreq_body req) []) (rreq_client_addr req) = Inl e
          \<longrightarrow> rresp_status resp = 500" for h e
    by (simp add: r tunnel_handle_rtsp_request_def)
  from w rt n th show \<open>handle_message io (Some tree) w
        = Inr (w\<lparr>client := (client w)\<lparr>c_written := c_written (client w) @
             [(''{"type":"rtsp_response","id":'' @ decimal (unat I)
                @ '',"status":'' @ decimal (unat (rresp_status resp))
                @ '',"reason":'' @ quoted (rresp_reason resp)
                @ '',"headers":{'' @ headers_json True (rresp_headers resp) @ ''}''
                @ (case rresp_body resp of None \<Rightarrow> [] | Some b \<Rightarrow> '',"body":'' @ quoted b)
                @ ''}'', fio_write io = None)]\<rparr>\<rparr>)
      \<and> (extract_unsigned (decimal (unat I)) :: 64 word option) = Some I
      \<and> (g = None \<longrightarrow> rresp_status resp = 500)
      \<and> (g = Some h
           \<and> h (fio_rtsp io) (rreq_method req) (rreq_uri req) (rreq_headers req)
                (value_or (rreq_body req) []) (rreq_client_addr req) = Inl e
          \<longrightarrow> rresp_status resp = 500)\<close>
    by (intro conjI)
qed

text \<open>
  C7: when the frame read has the type \<open>http_request\<close>, its \<open>id\<close> reads as the number I
  and it parses as a request, the client, with the tunnel's handler installed, hands
  exactly one frame to the WebSocket write: the text
  \<open>{"type":"http_response","id":I,"status":...,"headers":{...}[,"body":...]}\<close> with I in
  decimal (which reads back as I) and the status, headers and body of the response the
  tunnel builds; whatever the handler registered with the tunnel does. The status is 500
  when no handler is registered with the tunnel and when the handler throws. The same holds
  for \<open>rtsp_request\<close> and \<open>rtsp_response\<close>. And over any steps of the IO thread the number
  of \<open>http_response\<close> frames written grows by at most the number of \<open>http_request\<close>
  frames read: no request is answered twice and nothing else produces an
  \<open>http_response\<close>.
\<close>

theorem responses_carry_request_id:
  \<open>(get_string ''type'' tree = Inr ''http_request''
     \<and> get_unsigned ''id'' tree = Inr I
     \<and> HttpRequestMessage_from_json (Some tree) = Inr req
     \<and> c_http_handler (client w) = Some (\<lambda>hio r. Inr (tunnel_handle_http_request g hio r))
     \<and> stream_open (client w)
     \<and> resp = tunnel_handle_http_request g (fio_http io) req
   \<longrightarrow> handle_message io (Some tree) w
        = Inr (w\<lparr>client := (client w)\<lparr>c_written := c_written (client w) @
             [(''{"type":"http_response","id":'' @ decimal (unat I)
                @ '',"status":'' @ decimal (unat (hresp_status resp))
                @ '',"headers":{'' @ headers_json True (hresp_headers resp) @ ''}''
                @ (case hresp_body resp of None \<Rightarrow> [] | Some b \<Rightarrow> '',"body":'' @ quoted b)
                @ ''}'', fio_write io = None)]\<rparr>\<rparr>)
      \<and> (extract_unsigned (decimal (unat I)) :: 64 word option) = Some I
      \<and> (g = None \<longrightarrow> hresp_status resp = 500)
      \<and> (g = Some h
           \<and> h (fio_http io) (hreq_method req) (hreq_path req) (value_or (hreq_query req) [])
                (hreq_headers req) (value_or (hreq_body req) []) (hreq_client_addr req)
                (hreq_is_https req) = Inl e
          \<longrightarrow> hresp_status resp = 500))
   \<and> (get_string ''type'' rtree = Inr ''rtsp_request''
     \<and> get_unsigned ''id'' rtree = Inr J
     \<and> RtspRequestMessage_from_json (Some rtree) = Inr rreq
     \<and> c_rtsp_handler (client v) = Some (\<lambda>rio r. Inr (tunnel_handle_rtsp_request g' rio r))
     \<and> stream_open (client v)
     \<and> rresp = tunnel_handle_rtsp_request g' (fio_rtsp fio) rreq
   \<longrightarrow> handle_message fio (Some rtree) v
        = Inr (v\<lparr>client := (client v)\<lparr>c_written := c_written (client v) @
             [(''{"type":"rtsp_response","id":'' @ decimal (unat J)
                @ '',"status":'' @ decimal (unat (rresp_status rresp))
                @ '',"reason":'' @ quoted (rresp_reason rresp)
                @ '',"headers":{'' @ headers_json True (rresp_headers rresp) @ ''}''
                @ (case rresp_body rresp of None \<Rightarrow> [] | Some b \<Rightarrow> '',"body":'' @ quoted b)
                @ ''}'', fio_write fio = None)]\<rparr>\<rparr>)
      \<and> (extract_unsigned (decimal (unat J)) :: 64 word option) = Some J
      \<and> (g' = None \<longrightarrow> rresp_status rresp = 500)
      \<and> (g' = Some rh
           \<and> rh (fio_rtsp fio) (rreq_method rreq) (rreq_uri rreq) (rreq_headers rreq)
                (value_or (rreq_body rreq) []) (rreq_client_addr rreq) = Inl e'
          \<longrightarrow> rresp_status rresp = 500))
   \<and> http_responses_written (client (thread_run inputs u))
       \<le> http_responses_written (client u) + http_requests_in inputs\<close>
  by (intro conjI http_wire rtsp_wire thread_run_count)

lemma http_request_tree_fields:
  "get_string ''type'' http_request_tree = Inr ''http_request''"
  "get_unsigned ''id'' http_request_tree = Inr (7 :: 64 word)"
  by (simp_all add: http_request_tree_def eval_json)

lemma http_request_tree_parsed:
  "HttpRequestMessage_from_json (Some http_request_tree) = Inr http_request_7"
  by (simp add: http_request_tree_def HttpRequestMessage_from_json_def eval_json
      headers_from_tree_def get_bool_default_def extract_bool_def at_end_def http_request_7_def)

lemma rtsp_request_tree_fields:
  "get_string ''type'' rtsp_request_tree = Inr ''rtsp_request''"
  "get_unsigned ''id'' rtsp_request_tree = Inr (9 :: 64 word)"
  by (simp_all add: rtsp_request_tree_def eval_json)

lemma rtsp_request_tree_parsed:
  "RtspRequestMessage_from_json (Some rtsp_request_tree) = Inr rtsp_request_9"
  by (simp add: rtsp_request_tree_def RtspRequestMessage_from_json_def eval_json
      headers_from_tree_def rtsp_request_9_def)

lemma quoted_eval:
  \<open>quoted ''hi'' = ''"hi"''\<close>
  \<open>quoted ''text/plain'' = ''"text/plain"''\<close>
  \<open>quoted ''Content-Type'' = ''"Content-Type"''\<close>
  \<open>quoted ''Internal Server Error: No handler'' = ''"Internal Server Error: No handler"''\<close>
  \<open>quoted ''Internal Server Error'' = ''"Internal Server Error"''\<close>
  \<open>quoted ''OK'' = ''"OK"''\<close>
  \<open>quoted ''CSeq'' = ''"CSeq"''\<close>
  \<open>quoted ''1'' = ''"1"''\<close>
  by (simp_all add: quoted_def escape_json_def escape_char_def)

lemma http_response_200:
  "tunnel_handle_http_request (Some (forwarder_nvhttp example_cfg)) quiet_http_io http_request_7
   = \<lparr>hresp_id = 7, hresp_status = 200, hresp_headers = [(''Content-Type'', ''text/plain'')],
      hresp_body = Some ''hi''\<rparr>"
  by (simp add: tunnel_handle_http_request_def forwarder_nvhttp_def handle_http_request_def
      http_try_def quiet_http_reply Let_def http_request_7_def)

lemma http_response_500:
  "tunnel_handle_http_request None quiet_http_io http_request_7
   = \<lparr>hresp_id = 7, hresp_status = 500, hresp_headers = [],
      hresp_body = Some ''Internal Server Error: No handler''\<rparr>"
  by (simp add: tunnel_handle_http_request_def http_request_7_def)

lemma rtsp_response_200:
  "tunnel_handle_rtsp_request (Some forwarder_rtsp) quiet_rtsp_io rtsp_request_9
   = \<lparr>rresp_id = 9, rresp_status = 200, rresp_reason = ''OK'',
      rresp_headers = [(''CSeq'', ''1'')], rresp_body = None\<rparr>"
  by (simp add: tunnel_handle_rtsp_request_def forwarder_rtsp_def handle_rtsp_request_def
      rtsp_try_def quiet_rtsp_reply Let_def rtsp_request_9_def)

lemma rtsp_response_500:
  "tunnel_handle_rtsp_request (Some throwing_rtsp) quiet_rtsp_io rtsp_request_9
   = \<lparr>rresp_id = 9, rresp_status = 500, rresp_reason = ''Internal Server Error'',
      rresp_headers = [], rresp_body = None\<rparr>"
  by (simp add: tunnel_handle_rtsp_request_def throwing_rtsp_def rtsp_request_9_def)

lemma tunnel_client_fields:
  "stream_open (tunnel_client g g')"
  "c_written (tunnel_client g g') = []"
  "c_http_handler (tunnel_client g g')
   = Some (\<lambda>hio r. Inr (tunnel_handle_http_request g hio r))"
  "c_rtsp_handler (tunnel_client g g')
   = Some (\<lambda>rio r. Inr (tunnel_handle_rtsp_request g' rio r))"
  by (simp_all add: stream_open_def tunnel_client_def tunnel_initialize_def
      connected_client_def example_client_def Client_new_def)

text \<open>An \<open>http_request\<close> with the id 7, answered through the forwarder (status 200) and
  with no handler (status 500); an \<open>rtsp_request\<close> with the id 9, answered through the
  forwarder (status 200) and by a handler that throws (status 500).\<close>

theorem responses_carry_request_id_witness:
  \<open>get_string ''type'' http_request_tree = Inr ''http_request''
   \<and> get_unsigned ''id'' http_request_tree = Inr (7 :: 64 word)
   \<and> HttpRequestMessage_from_json (Some http_request_tree) = Inr http_request_7
   \<and> get_string ''type'' rtsp_request_tree = Inr ''rtsp_request''
   \<and> get_unsigned ''id'' rtsp_request_tree = Inr (9 :: 64 word)
   \<and> RtspRequestMessage_from_json (Some rtsp_request_tree) = Inr rtsp_request_9
   \<and> stream_open (tunnel_client (Some (forwarder_nvhttp example_cfg)) (Some forwarder_rtsp))
   \<and> stream_open (tunnel_client None (Some throwing_rtsp))
   \<and> handle_message quiet_frame_io (Some http_request_tree)
        \<lparr>client = tunnel_client (Some (forwarder_nvhttp example_cfg)) (Some forwarder_rtsp),
         g_channel_manager = None\<rparr>
      = Inr \<lparr>client = (tunnel_client (Some (forwarder_nvhttp example_cfg)) (Some forwarder_rtsp))
                \<lparr>c_written := [(''{"type":"http_response","id":7,"status":200,"headers":{"Content-Type":"text/plain"},"body":"hi"}'', True)]\<rparr>,
              g_channel_manager = None\<rparr>
   \<and> handle_message quiet_frame_io (Some http_request_tree)
        \<lparr>client = tunnel_client None (Some throwing_rtsp), g_channel_manager = None\<rparr>
      = Inr \<lparr>client = (tunnel_client None (Some throwing_rtsp))
                \<lparr>c_written := [(''{"type":"http_response","id":7,"status":500,"headers":{},"body":"Internal Server Error: No handler"}'', True)]\<rparr>,
              g_channel_manager = None\<rparr>
   \<and> handle_message quiet_frame_io (Some rtsp_request_tree)
        \<lparr>client = tunnel_client (Some (forwarder_nvhttp example_cfg)) (Some forwarder_rtsp),
         g_channel_manager = None\<rparr>
      = Inr \<lparr>client = (tunnel_client (Some (forwarder_nvhttp example_cfg)) (Some forwarder_rtsp))
                \<lparr>c_written := [(''{"type":"rtsp_response","id":9,"status":200,"reason":"OK","headers":{"CSeq":"1"}}'', True)]\<rparr>,
              g_channel_manager = None\<rparr>
   \<and> handle_message quiet_frame_io (Some rtsp_request_tree)
        \<lparr>client = tunnel_client None (Some throwing_rtsp), g_channel_manager = None\<rparr>
      = Inr \<lparr>client = (tunnel_client None (Some throwing_rtsp))
                \<lparr>c_written := [(''{"type":"rtsp_response","id":9,"status":500,"reason":"Internal Server Error","headers":{}}'', True)]\<rparr>,
              g_channel_manager = None\<rparr>\<close>
proof -
  have q: "fio_http quiet_frame_io = quiet_http_io" "fio_rtsp quiet_frame_io = quiet_rtsp_io"
          "fio_write quiet_frame_io = None"
    by (simp_all add: quiet_frame_io_def)
  have d: "decimal 7 = ''7''" "decimal 9 = ''9''" "decimal 200 = ''200''" "decimal 500 = ''500''"
    by (simp_all add: decimal.simps char_of_eq_iff)
  have 1: \<open>handle_message quiet_frame_io (Some http_request_tree)
        \<lparr>client = tunnel_client (Some (forwarder_nvhttp example_cfg)) (Some forwarder_rtsp),
         g_channel_manager = None\<rparr>
      = Inr \<lparr>client = (tunnel_client (Some (forwarder_nvhttp example_cfg)) (Some forwarder_rtsp))
                \<lparr>c_written := [(''{"type":"http_response","id":7,"status":200,"headers":{"Content-Type":"text/plain"},"body":"hi"}'', True)]\<rparr>,
              g_channel_manager = None\<rparr>\<close>
    using responses_carry_request_id [where tree = http_request_tree and I = 7
        and req = http_request_7 and g = "Some (forwarder_nvhttp example_cfg)"
        and io = quiet_frame_io
        and w = "\<lparr>client = tunnel_client (Some (forwarder_nvhttp example_cfg))
                              (Some forwarder_rtsp), g_channel_manager = None\<rparr>"
        and resp = "\<lparr>hresp_id = 7, hresp_status = 200,
                      hresp_headers = [(''Content-Type'', ''text/plain'')],
                      hresp_body = Some ''hi''\<rparr>", THEN conjunct1]
    by (simp add: http_request_tree_fields http_request_tree_parsed tunnel_client_fields q
        http_response_200 d quoted_eval)
  have 2: \<open>handle_message quiet_frame_io (Some http_request_tree)
        \<lparr>client = tunnel_client None (Some throwing_rtsp), g_channel_manager = None\<rparr>
      = Inr \<lparr>client = (tunnel_client None (Some throwing_rtsp))
                \<lparr>c_written := [(''{"type":"http_response","id":7,"status":500,"headers":{},"body":"Internal Server Error: No handler"}'', True)]\<rparr>,
              g_channel_manager = None\<rparr>\<close>
    using responses_carry_request_id [where tree = http_request_tree and I = 7
        and req = http_request_7 and g = None and io = quiet_frame_io
        and w = "\<lparr>client = tunnel_client None (Some throwing_rtsp),
                   g_channel_manager = None\<rparr>"
        and resp = "\<lparr>hresp_id = 7, hresp_status = 500, hresp_headers = [],
                      hresp_body = Some ''Internal Server Error: No handler''\<rparr>",
        THEN conjunct1]
    by (simp add: http_request_tree_fields http_request_tree_parsed tunnel_client_fields q
        http_response_500 d quoted_eval)
  have 3: \<open>handle_message quiet_frame_io (Some rtsp_request_tree)
        \<lparr>client = tunnel_client (Some (forwarder_nvhttp example_cfg)) (Some forwarder_rtsp),
         g_channel_manager = None\<rparr>
      = Inr \<lparr>client = (tunnel_client (Some (forwarder_nvhttp example_cfg)) (Some forwarder_rtsp))
                \<lparr>c_written := [(''{"type":"rtsp_response","id":9,"status":200,"reason":"OK","headers":{"CSeq":"1"}}'', True)]\<rparr>,
              g_channel_manager = None\<rparr>\<close>
    using responses_carry_request_id [where rtree = rtsp_request_tree and J = 9
        and rreq = rtsp_request_9 and g' = "Some forwarder_rtsp" and fio = quiet_frame_io
        and v = "\<lparr>client = tunnel_client (Some (forwarder_nvhttp example_cfg))
                              (Some forwarder_rtsp), g_channel_manager = None\<rparr>"
        and rresp = "\<lparr>rresp_id = 9, rresp_status = 200, rresp_reason = ''OK'',
                       rresp_headers = [(''CSeq'', ''1'')], rresp_body = None\<rparr>",
        THEN conjunct2, THEN conjunct1]
    by (simp add: rtsp_request_tree_fields rtsp_request_tree_parsed tunnel_client_fields q
        rtsp_response_200 d quoted_eval)
  have 4: \<open>handle_message quiet_frame_io (Some rtsp_request_tree)
        \<lparr>client = tunnel_client None (Some throwing_rtsp), g_channel_manager = None\<rparr>
      = Inr \<lparr>client = (tunnel_client None (Some throwing_rtsp))
                \<lparr>c_written := [(''{"type":"rtsp_response","id":9,"status":500,"reason":"Internal Server Error","headers":{}}'', True)]\<rparr>,
              g_channel_manager = None\<rparr>\<close>
    using responses_carry_request_id [where rtree = rtsp_request_tree and J = 9
        and rreq = rtsp_request_9 and g' = "Some throwing_rtsp" and fio = quiet_frame_io
        and v = "\<lparr>client = tunnel_client None (Some throwing_rtsp),
                   g_channel_manager = None\<rparr>"
        and rresp = "\<lparr>rresp_id = 9, rresp_status = 500,
                       rresp_reason = ''Internal Server Error'',
                       rresp_headers = [], rresp_body = None\<rparr>",
        THEN conjunct2, THEN conjunct1]
    by (simp add: rtsp_request_tree_fields rtsp_request_tree_parsed tunnel_client_fields q
        rtsp_response_500 d quoted_eval)
  from 1 2 3 4 show ?thesis
    by (simp add: http_request_tree_fields http_request_tree_parsed rtsp_request_tree_fields
        rtsp_request_tree_parsed tunnel_client_fields)
qed

section \<open>URL parsing (C8)\<close>

lemma connect_invalid_url:
  assumes "parse_url (c_server_url c) = None"
  shows "fst (connect io c) = None \<and> c_state (snd (connect io c)) = Error"
  using assms by (simp add: connect_def Let_def)

lemma parse_url_use_ssl:
  assumes "parse_url url = Some u"
  shows "url_use_ssl u = (take (scheme_length url) url = ''wss''
                          \<or> take (scheme_length url) url = ''WSS'')"
  using assms by (auto simp add: parse_url_def Let_def split: if_splits)

lemma parse_url_default_port:
  assumes "parse_url url = Some u"
      and "dropWhile host_char (drop (scheme_length url + 3) url) = []"
  shows "url_port u = (if url_use_ssl u then ''443'' else ''80'') \<and> url_path u = ''/''"
  using assms(1) by (auto simp add: parse_url_def Let_def assms(2) split: if_splits)

text \<open>
  C8 holds for a scheme written \<open>wss\<close> or \<open>WSS\<close>, and an URL that does not match is
  refused with the state Error. It fails for a scheme in mixed case: the regular
  expression, compiled with \<open>std::regex::icase\<close>, accepts \<open>Wss://relay.example.com\<close>, but
  \<open>use_ssl\<close> compares the scheme with \<open>wss\<close> and \<open>WSS\<close> only, so the URL is parsed as
  one without TLS and with the default port 80, and \<open>connect\<close> opens a plain WebSocket.
\<close>

theorem mixed_case_scheme_without_tls:
  "parse_url ''Wss://relay.example.com''
     = Some \<lparr>url_host = ''relay.example.com'', url_port = ''80'', url_path = ''/'',
             url_use_ssl = False\<rparr>
   \<and> parse_url ''wss://relay.example.com''
     = Some \<lparr>url_host = ''relay.example.com'', url_port = ''443'', url_path = ''/'',
             url_use_ssl = True\<rparr>
   \<and> c_use_ssl (snd (connect \<lparr>cio_resolve = None, cio_handshake = None, cio_write = None\<rparr>
        (example_client\<lparr>c_server_url := ''Wss://relay.example.com''\<rparr>))) = False
   \<and> c_ws (snd (connect \<lparr>cio_resolve = None, cio_handshake = None, cio_write = None\<rparr>
        (example_client\<lparr>c_server_url := ''Wss://relay.example.com''\<rparr>))) = True
   \<and> c_state (snd (connect \<lparr>cio_resolve = None, cio_handshake = None, cio_write = None\<rparr>
        (example_client\<lparr>c_server_url := ''Wss://relay.example.com''\<rparr>))) = Connected"
proof -
  have a: "parse_url ''Wss://relay.example.com''
     = Some \<lparr>url_host = ''relay.example.com'', url_port = ''80'', url_path = ''/'',
             url_use_ssl = False\<rparr>"
    by (simp add: parse_url_def scheme_length_def tolower_def host_char_def isdigit_def
        line_terminator_def char_of_eq_iff)
  show ?thesis
    by (simp add: a example_url connect_def Let_def send_registration_def)
qed

section \<open>Shutdown (C9)\<close>

lemma thread_step_thread_inv:
  assumes "thread_inv w"
  shows "thread_inv (thread_step i w)"
proof (cases "c_io_thread (client w)")
  case None
  with assms show ?thesis by (simp add: thread_step_idle)
next
  case (Some pos)
  show ?thesis
  proof (cases pos)
    case Head
    with Some assms show ?thesis
      by (simp add: thread_step_Head thread_inv_def assigned_cleared_def)
  next
    case Entered
    with Some assms show ?thesis
      by (simp add: thread_step_Entered thread_inv_def assigned_cleared_def)
  next
    case Running
    with Some show ?thesis
      by (auto simp add: thread_step_Running thread_inv_def assigned_cleared_def
          handle_message_thread split: option.splits sum.splits)
  next
    case Finished
    with Some assms show ?thesis by (simp add: thread_step_idle)
  qed
qed

lemma thread_run_thread_inv: "thread_inv w \<Longrightarrow> thread_inv (thread_run inputs w)"
  by (induction inputs arbitrary: w) (simp_all add: thread_step_thread_inv)

lemma stop_cleared:
  assumes "thread_inv w" and "stop between during w = Some w'"
  shows "c_state (client w') = Disconnected \<and> assigned_cleared w'
         \<and> c_io_thread (client w') = None"
proof -
  define w2 where
    "w2 = (thread_run between (w\<lparr>client := (client w)\<lparr>c_running := False\<rparr>\<rparr>))
            \<lparr>client := (client (thread_run between (w\<lparr>client := (client w)\<lparr>c_running := False\<rparr>\<rparr>)))
               \<lparr>c_io_context := map_option (\<lambda>stopped. True)
                  (c_io_context (client (thread_run between
                     (w\<lparr>client := (client w)\<lparr>c_running := False\<rparr>\<rparr>))))\<rparr>\<rparr>"
  have "thread_inv (w\<lparr>client := (client w)\<lparr>c_running := False\<rparr>\<rparr>)"
    using assms(1) by (simp add: thread_inv_def assigned_cleared_def)
  then have "thread_inv (thread_run between (w\<lparr>client := (client w)\<lparr>c_running := False\<rparr>\<rparr>))"
    by (rule thread_run_thread_inv)
  then have i2: "thread_inv w2"
    by (simp add: w2_def thread_inv_def assigned_cleared_def)
  from assms(2) obtain w3 where
    j: "join during w2 = Some w3"
    and w': "w' = w3\<lparr>client := set_state Disconnected ((client w3)\<lparr>c_io_thread := None\<rparr>)\<rparr>"
    by (auto simp add: stop_def Let_def w2_def split: option.splits)
  from join_is_run [OF j] obtain n where
    n: "w3 = thread_run (take n during) w2"
       "c_io_thread (client w3) = None \<or> c_io_thread (client w3) = Some Finished"
    by blast
  have "thread_inv w3"
    unfolding n(1) using i2 by (rule thread_run_thread_inv)
  with n(2) have "assigned_cleared w3"
    by (auto simp add: thread_inv_def)
  then show ?thesis
    by (simp add: w' assigned_cleared_def)
qed

text \<open>Between the events of a history a thread exists only while \<open>running_\<close> is set:
  \<open>stop\<close> leaves none behind, so \<open>start\<close> never replaces a thread that is still there.\<close>

lemma step_thread_inv:
  assumes "thread_inv w" and "c_running (client w) \<or> c_io_thread (client w) = None"
      and "step e w = Some w'"
  shows "thread_inv w' \<and> (c_running (client w') \<or> c_io_thread (client w') = None)"
proof (cases e)
  case Start
  with assms show ?thesis
    by (auto simp add: thread_inv_def assigned_cleared_def start_def)
next
  case (Thread i)
  with assms(3) have w': "w' = thread_step i w" by simp
  have "thread_inv w'"
    unfolding w' using assms(1) by (rule thread_step_thread_inv)
  moreover have "c_running (client w') \<or> c_io_thread (client w') = None"
    using assms(2) unfolding w' by (auto simp add: thread_step_idle)
  ultimately show ?thesis by simp
next
  case (Stop between during)
  with assms have s: "stop between during w = Some w'" by simp
  from stop_cleared [OF assms(1) s] show ?thesis
    by (simp add: thread_inv_def)
qed

lemma run_events_thread_inv:
  "thread_inv w \<Longrightarrow> c_running (client w) \<or> c_io_thread (client w) = None \<Longrightarrow>
     run_events evs w = Some w' \<Longrightarrow> thread_inv w'"
proof (induction evs arbitrary: w)
  case Nil
  then show ?case by simp
next
  case (Cons e evs)
  from Cons.prems(3) obtain w1 where
    s: "step e w = Some w1" and r: "run_events evs w1 = Some w'"
    by (auto split: option.splits)
  from step_thread_inv [OF Cons.prems(1) Cons.prems(2) s]
  have "thread_inv w1" and "c_running (client w1) \<or> c_io_thread (client w1) = None"
    by simp_all
  from Cons.IH [OF this r] show ?case .
qed

text \<open>Once \<open>running_\<close> is cleared, every step brings the thread nearer to its end.\<close>

lemma steps_left_decreases:
  assumes "\<not> c_running (client w)"
  shows "steps_left (thread_step i w) \<le> steps_left w - 1"
proof (cases "c_io_thread (client w)")
  case None
  then show ?thesis by (simp add: thread_step_idle steps_left_def)
next
  case (Some pos)
  show ?thesis
  proof (cases pos)
    case Head
    with Some assms show ?thesis
      by (simp add: thread_step_Head steps_left_def)
  next
    case Entered
    with Some show ?thesis
      by (simp add: thread_step_Entered steps_left_def)
  next
    case Running
    with Some assms show ?thesis
      by (auto simp add: thread_step_Running steps_left_def handle_message_thread
          split: option.splits sum.splits)
  next
    case Finished
    with Some show ?thesis by (simp add: thread_step_idle steps_left_def)
  qed
qed

lemma join_returns:
  assumes "\<not> c_running (client w)" and "steps_left w \<le> length during"
  shows "join during w \<noteq> None"
  using assms
proof (induction during arbitrary: w)
  case Nil
  then show ?case
    by (auto simp add: steps_left_def split: option.splits thread_pos.splits)
next
  case (Cons i during)
  show ?case
  proof (cases "c_io_thread (client w) = None \<or> c_io_thread (client w) = Some Finished")
    case True
    then show ?thesis by auto
  next
    case False
    have "\<not> c_running (client (thread_step i w))"
      using Cons.prems(1) by simp
    moreover have "steps_left (thread_step i w) \<le> length during"
      using steps_left_decreases [OF Cons.prems(1), of i] Cons.prems(2) by simp
    ultimately have "join during (thread_step i w) \<noteq> None"
      by (rule Cons.IH)
    with False show ?thesis by simp
  qed
qed

lemma steps_left_le: "steps_left w \<le> 3"
  by (simp add: steps_left_def split: option.splits thread_pos.splits)

lemma stop_returns:
  assumes "3 \<le> length during"
  shows "stop between during w \<noteq> None"
proof -
  define w2 where
    "w2 = (thread_run between (w\<lparr>client := (client w)\<lparr>c_running := False\<rparr>\<rparr>))
            \<lparr>client := (client (thread_run between (w\<lparr>client := (client w)\<lparr>c_running := False\<rparr>\<rparr>)))
               \<lparr>c_io_context := map_option (\<lambda>stopped. True)
                  (c_io_context (client (thread_run between
                     (w\<lparr>client := (client w)\<lparr>c_running := False\<rparr>\<rparr>))))\<rparr>\<rparr>"
  have "\<not> c_running (client w2)"
    by (simp add: w2_def)
  moreover have "steps_left w2 \<le> length during"
    using steps_left_le [of w2] assms by simp
  ultimately have "join during w2 \<noteq> None"
    by (rule join_returns)
  then show ?thesis
    by (auto simp add: stop_def Let_def w2_def split: option.splits)
qed

text \<open>
  C9: take a freshly constructed client and any history of \<open>start\<close>, steps of the IO thread
  (any outcome of \<open>connect\<close>, any frames, registrations included) and earlier calls of
  \<open>stop\<close>, and call \<open>stop\<close> in the state it leads to, the thread being wherever it is,
  also inside \<open>io_context_->run()\<close> with the client registered. Whatever the IO thread
  meets while \<open>stop\<close> runs: if \<open>stop\<close> returns, the state is Disconnected, \<open>get_host_id\<close>
  is empty and \<open>get_ports\<close> is all zero; and \<open>stop\<close> does return when the thread gets to
  take three more steps. The assigned state is cleared by the \<open>disconnect\<close> of the IO
  thread, which the join waits for.
\<close>

theorem stop_clears_assigned_state:
  assumes "run_events evs
             \<lparr>client = Client_new server_url auth_key host_id hostname unique_id,
              g_channel_manager = g\<rparr> = Some w"
  shows "(3 \<le> length during \<longrightarrow> stop between during w \<noteq> None)
         \<and> (\<forall>w'. stop between during w = Some w' \<longrightarrow>
               get_state (client w') = Disconnected
               \<and> get_host_id (client w') = []
               \<and> get_ports (client w') = no_ports)"
proof (intro conjI allI impI)
  assume "3 \<le> length during"
  then show "stop between during w \<noteq> None" by (rule stop_returns)
next
  fix w'
  assume s: "stop between during w = Some w'"
  have "thread_inv \<lparr>client = Client_new server_url auth_key host_id hostname unique_id,
                    g_channel_manager = g\<rparr>"
    by (simp add: thread_inv_def assigned_cleared_def Client_new_def)
  moreover have "c_io_thread (client
                   \<lparr>client = Client_new server_url auth_key host_id hostname unique_id,
                    g_channel_manager = g\<rparr>) = None"
    by (simp add: Client_new_def)
  ultimately have "thread_inv w"
    using assms by (blast intro: run_events_thread_inv)
  from stop_cleared [OF this s]
  show "get_state (client w') = Disconnected"
    and "get_host_id (client w') = []"
    and "get_ports (client w') = no_ports"
    by (simp_all add: assigned_cleared_def get_state_def get_host_id_def get_ports_def)
qed

text \<open>The history that ends registered with host id \<open>h1\<close>; then \<open>stop\<close>, during which the
  thread leaves \<open>run\<close> and its loop.\<close>

theorem stop_clears_assigned_state_witness:
  "run_events register_history fresh_world = Some history_world
   \<and> get_state (client history_world) = Registered
   \<and> get_host_id (client history_world) = ''h1''
   \<and> http (get_ports (client history_world)) = 10
   \<and> c_io_thread (client history_world) = Some Running
   \<and> stop [] [read_error, read_error, read_error] history_world \<noteq> None
   \<and> get_state (client (the (stop [] [read_error, read_error, read_error] history_world)))
       = Disconnected
   \<and> get_host_id (client (the (stop [] [read_error, read_error, read_error] history_world)))
       = []
   \<and> get_ports (client (the (stop [] [read_error, read_error, read_error] history_world)))
       = no_ports"
proof -
  have r: "run_events register_history
             \<lparr>client = Client_new ''wss://relay.example.com'' ''secret'' [] ''host'' ''host_1'',
              g_channel_manager = None\<rparr> = Some history_world"
    using example_registered by (simp add: fresh_world_def example_client_def)
  note t = stop_clears_assigned_state [OF r, of "[read_error, read_error, read_error]" "[]"]
  from t have n: "stop [] [read_error, read_error, read_error] history_world \<noteq> None"
    by simp
  then obtain w' where
    w': "stop [] [read_error, read_error, read_error] history_world = Some w'"
    by auto
  with t have "get_state (client w') = Disconnected \<and> get_host_id (client w') = []
               \<and> get_ports (client w') = no_ports"
    by blast
  with n w' show ?thesis
    by (simp add: example_registered history_world_def get_state_def get_host_id_def
        get_ports_def send_registration_def send_message_def connected_client_def)
qed

section \<open>Channel type names (C10)\<close>

text \<open>
  C10: \<open>channel_type_from_string\<close> undoes \<open>channel_type_string\<close> on the three channel
  types; every string other than \<open>video\<close>, \<open>audio\<close> and \<open>control\<close> gives Video; and so
  a \<open>udp_channel_setup\<close> whose other fields parse and whose \<open>channel\<close> is such a string is
  accepted by \<open>from_json\<close> as a setup of the video channel.
\<close>

theorem channel_type_names:
  "(\<forall>t. channel_type_from_string (channel_type_string t) = t)
   \<and> (\<forall>s. s \<noteq> ''video'' \<and> s \<noteq> ''audio'' \<and> s \<noteq> ''control''
          \<longrightarrow> channel_type_from_string s = Video)
   \<and> (\<forall>tree sid s a.
          get_unsigned ''session_id'' tree = Inr sid \<and> get_string ''channel'' tree = Inr s
          \<and> get_string ''client_addr'' tree = Inr a
          \<and> s \<noteq> ''video'' \<and> s \<noteq> ''audio'' \<and> s \<noteq> ''control''
          \<longrightarrow> UdpChannelSetupMessage_from_json (Some tree)
                = Inr \<lparr>setup_session_id = sid, setup_channel = Video, setup_client_addr = a\<rparr>)"
proof (intro conjI allI impI)
  fix t show "channel_type_from_string (channel_type_string t) = t"
    by (cases t) (simp_all add: channel_type_from_string_def)
next
  fix s :: string assume "s \<noteq> ''video'' \<and> s \<noteq> ''audio'' \<and> s \<noteq> ''control''"
  then show "channel_type_from_string s = Video"
    by (simp add: channel_type_from_string_def)
next
  fix tree and sid :: "64 word" and s a
  assume "get_unsigned ''session_id'' tree = Inr sid \<and> get_string ''channel'' tree = Inr s
          \<and> get_string ''client_addr'' tree = Inr a
          \<and> s \<noteq> ''video'' \<and> s \<noteq> ''audio'' \<and> s \<noteq> ''control''"
  then show "UdpChannelSetupMessage_from_json (Some tree)
                = Inr \<lparr>setup_session_id = sid, setup_channel = Video, setup_client_addr = a\<rparr>"
    by (simp add: UdpChannelSetupMessage_from_json_def with_tree_def bind_exn_def
        channel_type_from_string_def)
qed

theorem channel_type_names_witness:
  "channel_type_from_string (channel_type_string Audio) = Audio
   \<and> channel_type_from_string ''depth'' = Video
   \<and> get_unsigned ''session_id'' (setup_tree ''depth'') = Inr (1 :: 64 word)
   \<and> get_string ''channel'' (setup_tree ''depth'') = Inr ''depth''
   \<and> get_string ''client_addr'' (setup_tree ''depth'') = Inr ''1.2.3.4''
   \<and> UdpChannelSetupMessage_from_json (Some (setup_tree ''depth''))
       = Inr \<lparr>setup_session_id = 1, setup_channel = Video, setup_client_addr = ''1.2.3.4''\<rparr>"
proof -
  have a: "get_unsigned ''session_id'' (setup_tree ''depth'') = Inr (1 :: 64 word)"
    by (simp add: setup_tree_def eval_json)
  have b: "get_string ''channel'' (setup_tree ''depth'') = Inr ''depth''"
    by (simp add: setup_tree_def eval_json)
  have c: "get_string ''client_addr'' (setup_tree ''depth'') = Inr ''1.2.3.4''"
    by (simp add: setup_tree_def eval_json)
  have d: "channel_type_from_string ''depth'' = Video"
    using channel_type_names [THEN conjunct2, THEN conjunct1, rule_format, of "''depth''"]
    by simp
  have e: "UdpChannelSetupMessage_from_json (Some (setup_tree ''depth''))
       = Inr \<lparr>setup_session_id = 1, setup_channel = Video, setup_client_addr = ''1.2.3.4''\<rparr>"
    using channel_type_names [THEN conjunct2, THEN conjunct2, rule_format,
        of "setup_tree ''depth''" 1 "''depth''" "''1.2.3.4''"] a b c
    by simp
  have f: "channel_type_from_string (channel_type_string Audio) = Audio"
    using channel_type_names [THEN conjunct1, rule_format, of Audio] .
  from a b c d e f show ?thesis
    by (intro conjI)
qed


end
